theory Spec2Isabelle
  imports Complex_Main
begin

section \<open>Python values: errors and floating-point numbers\<close>

text \<open>
  Exceptions of the Python source are values of type \<open>error\<close>; a function that may
  raise returns \<open>error + 'a\<close>, with \<open>Inl\<close> for the exception.  \<open>ValueError\<close>
  carries the message, so that the \<open>ValueError\<close> raised by \<open>correction3D\<close> itself is
  told apart from the one numpy raises on arrays of incompatible shapes.
\<close>

datatype error =
    ValueError string
  | IndexError
  | KeyError
  | UnboundLocalError string
  | ExternalError string

definition bind :: "error + 'a \<Rightarrow> ('a \<Rightarrow> error + 'b) \<Rightarrow> error + 'b" where
  "bind m f = (case m of Inl e \<Rightarrow> Inl e | Inr x \<Rightarrow> f x)"

text \<open>
  A numpy \<open>float64\<close> is modelled as a real number or one of the three special values of
  IEEE 754.  The operations \<open>fadd\<close>, \<open>fsub\<close>, \<open>fmul\<close>, \<open>fdiv\<close>, \<open>fsqrt\<close> and the
  trigonometric functions below give the exact result on finite operands; on the special
  values they follow IEEE 754 as numpy implements it with its default error state, where
  a division by zero or an invalid operation gives a warning and an infinity or a NaN,
  never an exception.  Zero has no sign here.

  The exact operations are not the arithmetic of float64, which rounds every result and
  overflows.  What is proved below about \<open>correction3D\<close> does not depend on the difference:
  the error check of lines 34 to 41, the correspondence of the code with the formulas of
  the specification (both sides in the same arithmetic), and evaluations at inputs where
  every float64 operation of the code is exact.  The rounding of float64 is defined
  further down (\<open>rnd64\<close>) and used for \<open>featureNorm\<close>, where a claim depends on it.
\<close>

datatype npfloat = Fin real | PInf | NInf | NaN

fun isnan :: "npfloat \<Rightarrow> bool" where
  "isnan NaN = True"
| "isnan _ = False"

fun isfinite :: "npfloat \<Rightarrow> bool" where
  "isfinite (Fin _) = True"
| "isfinite _ = False"

fun fneg :: "npfloat \<Rightarrow> npfloat" where
  "fneg (Fin a) = Fin (- a)"
| "fneg PInf = NInf"
| "fneg NInf = PInf"
| "fneg NaN = NaN"

fun fadd :: "npfloat \<Rightarrow> npfloat \<Rightarrow> npfloat" where
  "fadd NaN _ = NaN"
| "fadd _ NaN = NaN"
| "fadd (Fin a) (Fin b) = Fin (a + b)"
| "fadd PInf NInf = NaN"
| "fadd NInf PInf = NaN"
| "fadd PInf _ = PInf"
| "fadd _ PInf = PInf"
| "fadd NInf _ = NInf"
| "fadd _ NInf = NInf"

definition fsub :: "npfloat \<Rightarrow> npfloat \<Rightarrow> npfloat" where
  "fsub x y = fadd x (fneg y)"

fun fmul :: "npfloat \<Rightarrow> npfloat \<Rightarrow> npfloat" where
  "fmul NaN _ = NaN"
| "fmul _ NaN = NaN"
| "fmul (Fin a) (Fin b) = Fin (a * b)"
| "fmul (Fin a) PInf = (if a = 0 then NaN else if 0 < a then PInf else NInf)"
| "fmul (Fin a) NInf = (if a = 0 then NaN else if 0 < a then NInf else PInf)"
| "fmul PInf (Fin b) = (if b = 0 then NaN else if 0 < b then PInf else NInf)"
| "fmul NInf (Fin b) = (if b = 0 then NaN else if 0 < b then NInf else PInf)"
| "fmul PInf PInf = PInf"
| "fmul PInf NInf = NInf"
| "fmul NInf PInf = NInf"
| "fmul NInf NInf = PInf"

fun fdiv :: "npfloat \<Rightarrow> npfloat \<Rightarrow> npfloat" where
  "fdiv NaN _ = NaN"
| "fdiv _ NaN = NaN"
| "fdiv (Fin a) (Fin b) =
     (if b = 0 then (if a = 0 then NaN else if 0 < a then PInf else NInf)
      else Fin (a / b))"
| "fdiv (Fin a) PInf = Fin 0"
| "fdiv (Fin a) NInf = Fin 0"
| "fdiv PInf (Fin b) = (if 0 \<le> b then PInf else NInf)"
| "fdiv NInf (Fin b) = (if 0 \<le> b then NInf else PInf)"
| "fdiv PInf PInf = NaN"
| "fdiv PInf NInf = NaN"
| "fdiv NInf PInf = NaN"
| "fdiv NInf NInf = NaN"

fun fsqrt :: "npfloat \<Rightarrow> npfloat" where
  "fsqrt (Fin a) = (if a < 0 then NaN else Fin (sqrt a))"
| "fsqrt PInf = PInf"
| "fsqrt NInf = NaN"
| "fsqrt NaN = NaN"

fun fsin :: "npfloat \<Rightarrow> npfloat" where
  "fsin (Fin a) = Fin (sin a)"
| "fsin _ = NaN"

fun fcos :: "npfloat \<Rightarrow> npfloat" where
  "fcos (Fin a) = Fin (cos a)"
| "fcos _ = NaN"

text \<open>
  At a pole of the tangent, which no binary floating-point argument hits exactly, the
  model takes the quotient of sine and cosine.
\<close>

fun ftan :: "npfloat \<Rightarrow> npfloat" where
  "ftan (Fin a) = fdiv (Fin (sin a)) (Fin (cos a))"
| "ftan _ = NaN"

fun farctan :: "npfloat \<Rightarrow> npfloat" where
  "farctan (Fin a) = Fin (arctan a)"
| "farctan PInf = Fin (pi / 2)"
| "farctan NInf = Fin (- (pi / 2))"
| "farctan NaN = NaN"

fun farccos :: "npfloat \<Rightarrow> npfloat" where
  "farccos (Fin a) = (if - 1 \<le> a \<and> a \<le> 1 then Fin (arccos a) else NaN)"
| "farccos _ = NaN"

fun farcsin :: "npfloat \<Rightarrow> npfloat" where
  "farcsin (Fin a) = (if - 1 \<le> a \<and> a \<le> 1 then Fin (arcsin a) else NaN)"
| "farcsin _ = NaN"

section \<open>Arrays\<close>

text \<open>
  An array of shape \<open>(n, 3)\<close> is a list of \<open>n\<close> rows, an array of shape \<open>(n,)\<close> a list
  of \<open>n\<close> numbers.  A binary operation of numpy on two arrays broadcasts along the first
  axis: equal lengths combine row by row, an array of one row is repeated, and any other
  pair of lengths raises \<open>ValueError\<close>.
\<close>

type_synonym vec3 = "npfloat \<times> npfloat \<times> npfloat"

definition c0 :: "vec3 \<Rightarrow> npfloat" where "c0 v = fst v"

definition c1 :: "vec3 \<Rightarrow> npfloat" where "c1 v = fst (snd v)"

definition c2 :: "vec3 \<Rightarrow> npfloat" where "c2 v = snd (snd v)"

definition broadcast_error :: error where
  "broadcast_error = ValueError ''operands could not be broadcast together''"

definition broadcast :: "('a \<Rightarrow> 'b \<Rightarrow> 'c) \<Rightarrow> 'a list \<Rightarrow> 'b list \<Rightarrow> error + 'c list" where
  "broadcast f xs ys =
     (if length xs = length ys then Inr (map2 f xs ys)
      else if length xs = 1 then Inr (map (f (hd xs)) ys)
      else if length ys = 1 then Inr (map (\<lambda>x. f x (hd ys)) xs)
      else Inl broadcast_error)"

definition vsub :: "vec3 \<Rightarrow> vec3 \<Rightarrow> vec3" where
  "vsub a b = (fsub (c0 a) (c0 b), fsub (c1 a) (c1 b), fsub (c2 a) (c2 b))"

text \<open>\<open>np.linalg.norm(a, axis=1)\<close>: the square root of the sum of the squares of a row.\<close>

definition norm3 :: "vec3 \<Rightarrow> npfloat" where
  "norm3 v = fsqrt (fadd (fadd (fmul (c0 v) (c0 v)) (fmul (c1 v) (c1 v))) (fmul (c2 v) (c2 v)))"

definition norm2 :: "vec3 \<Rightarrow> npfloat" where
  "norm2 v = fsqrt (fadd (fmul (c0 v) (c0 v)) (fmul (c1 v) (c1 v)))"

text \<open>\<open>np.vstack\<close> of three rows followed by \<open>np.transpose\<close>.\<close>

definition vstack_T :: "npfloat list \<Rightarrow> npfloat list \<Rightarrow> npfloat list \<Rightarrow> error + vec3 list" where
  "vstack_T r0 r1 r2 =
     (if length r0 = length r1 \<and> length r1 = length r2 then Inr (zip r0 (zip r1 r2))
      else Inl (ValueError ''all the input array dimensions must match exactly''))"

section \<open>Refraction correction (\<open>correction3D\<close>)\<close>

text \<open>
  The bearing (``gisement'') of a shot vector, line 45 of the source:
  \<open>2*arctan(v[0] / (norm(v[0:2]) + v[1]))\<close>.
\<close>

definition gisement :: "vec3 \<Rightarrow> npfloat" where
  "gisement v = fmul (Fin 2) (farctan (fdiv (c0 v) (fadd (norm2 v) (c1 v))))"

definition null_both :: error where
  "null_both = ValueError ''pt_shot and vectorApp shouldn't be Null both''"

text \<open>Lines 34 to 41: the apparent shot vectors, from the shot origins or as supplied.\<close>

definition shot_vectors :: "vec3 list \<Rightarrow> vec3 list \<Rightarrow> vec3 list \<Rightarrow> error + vec3 list" where
  "shot_vectors pt_app pt_shot vectorApp =
     (if length pt_shot > 0 \<and> length vectorApp = 0 then broadcast vsub pt_shot pt_app
      else if length pt_shot = 0 \<and> length vectorApp > 0 then Inr vectorApp
      else Inl null_both)"

definition correction3D ::
  "vec3 list \<Rightarrow> npfloat list \<Rightarrow> vec3 list \<Rightarrow> vec3 list \<Rightarrow> npfloat
     \<Rightarrow> error + (vec3 list \<times> npfloat list)" where
  "correction3D pt_app depthApp pt_shot vectorApp indRefr =
     bind (shot_vectors pt_app pt_shot vectorApp) (\<lambda>vectApp.
     let vectApp_norm = map norm3 vectApp;
         gisement_vect = map gisement vectApp;
         thetaApp = map farccos (map2 fdiv (map c2 vectApp) vectApp_norm);
         thetaTrue = map (\<lambda>t. farcsin (fdiv (fsin t) indRefr)) thetaApp
     in
     bind (broadcast fmul depthApp (map fcos thetaApp)) (\<lambda>num.
     bind (broadcast fdiv num (map (\<lambda>t. fmul indRefr (fcos t)) thetaTrue)) (\<lambda>depthTrue.
     bind (broadcast fmul depthApp (map ftan thetaApp)) (\<lambda>dApp.
     bind (broadcast fmul depthTrue (map ftan thetaTrue)) (\<lambda>dTrue.
     bind (broadcast fsub dApp dTrue) (\<lambda>distPlan.
     bind (broadcast fmul distPlan (map fsin gisement_vect)) (\<lambda>sx.
     bind (broadcast fadd (map c0 pt_app) sx) (\<lambda>row0.
     bind (broadcast fmul distPlan (map fcos gisement_vect)) (\<lambda>sy.
     bind (broadcast fadd (map c1 pt_app) sy) (\<lambda>row1.
     bind (broadcast fadd (map c2 pt_app) depthTrue) (\<lambda>sz.
     bind (broadcast fsub sz depthApp) (\<lambda>row2.
     bind (vstack_T row0 row1 row2) (\<lambda>coords.
     Inr (coords, depthTrue))))))))))))))"

text \<open>
  The row-wise reading of \<open>correction3D\<close>: what lines 42 to 55 compute for one point,
  its apparent depth and its shot vector, in the order of the operations of the source.
\<close>

definition point_row :: "npfloat \<Rightarrow> vec3 \<Rightarrow> npfloat \<Rightarrow> vec3 \<Rightarrow> vec3 \<times> npfloat" where
  "point_row indRefr p depthApp v =
     (let thetaApp = farccos (fdiv (c2 v) (norm3 v));
          thetaTrue = farcsin (fdiv (fsin thetaApp) indRefr);
          depthTrue = fdiv (fmul depthApp (fcos thetaApp)) (fmul indRefr (fcos thetaTrue));
          distPlan = fsub (fmul depthApp (ftan thetaApp)) (fmul depthTrue (ftan thetaTrue))
      in ((fadd (c0 p) (fmul distPlan (fsin (gisement v))),
           fadd (c1 p) (fmul distPlan (fcos (gisement v))),
           fsub (fadd (c2 p) depthTrue) depthApp),
          depthTrue))"






section \<open>Python strings and sequences\<close>

text \<open>
  \<open>str\<close> of a non-negative integer is its decimal numeral.  The point source identifiers
  that \<open>pylas\<close> reads are unsigned 16-bit integers, and \<open>np.unique\<close> keeps that type, so
  the keys of \<open>linesDict\<close> are natural numbers.
\<close>

definition digit_char :: "nat \<Rightarrow> char" where
  "digit_char d = ''0123456789'' ! d"

fun str_nat :: "nat \<Rightarrow> string" where
  "str_nat n = (if n < 10 then [digit_char n] else str_nat (n div 10) @ [digit_char (n mod 10)])"

text \<open>
  \<open>fileroot.split(sep='XX')\<close>: the pieces of a string between the occurrences of \<open>XX\<close>,
  found from left to right.  The first argument accumulates the current piece, reversed.
\<close>

fun split_XX :: "string \<Rightarrow> string \<Rightarrow> string list" where
  "split_XX acc (c # d # cs) =
     (if c = CHR ''X'' \<and> d = CHR ''X'' then rev acc # split_XX [] cs
      else split_XX (c # acc) (d # cs))"
| "split_XX acc [c] = [rev (c # acc)]"
| "split_XX acc [] = [rev acc]"

text \<open>
  \<open>os.path.split(p)[1]\<close>: what follows the last slash.
\<close>

definition basename :: "string \<Rightarrow> string" where
  "basename p = rev (takeWhile (\<lambda>c. c \<noteq> CHR ''/'') (rev p))"

text \<open>
  Indexing a sequence with a non-negative index raises \<open>IndexError\<close> out of range;
  \<open>max\<close> of an empty sequence raises \<open>ValueError\<close>.
\<close>

definition py_index :: "'a list \<Rightarrow> nat \<Rightarrow> error + 'a" where
  "py_index xs i = (if i < length xs then Inr (xs ! i) else Inl IndexError)"

definition py_max :: "nat list \<Rightarrow> error + nat" where
  "py_max xs = (case xs of [] \<Rightarrow> Inl (ValueError ''max() arg is an empty sequence'')
                | x # rest \<Rightarrow> Inr (fold max rest x))"

section \<open>The outside world\<close>

text \<open>
  The file system and the external tools are parameters of the model.  \<open>run\<close> is
  \<open>utils.Run\<close>, which executes a command line of the LAStools and fails when the tool
  fails; \<open>glob\<close>, \<open>rename\<close>, \<open>remove\<close> and \<open>rmdir\<close> are the functions of the Python
  library; \<open>pt_src_id\<close> is \<open>np.unique(pylas.read(path).pt_src_id)\<close>.  The type \<open>'w\<close> is
  the state of the file system.
\<close>

record 'w env =
  run :: "string \<Rightarrow> 'w \<Rightarrow> error + 'w"
  glob :: "string \<Rightarrow> 'w \<Rightarrow> string list"
  rename :: "string \<Rightarrow> string \<Rightarrow> 'w \<Rightarrow> error + 'w"
  remove :: "string \<Rightarrow> 'w \<Rightarrow> error + 'w"
  rmdir :: "string \<Rightarrow> 'w \<Rightarrow> error + 'w"
  pt_src_id :: "string \<Rightarrow> 'w \<Rightarrow> error + nat list"

text \<open>
  What a run does to the outside: the file system, the command lines given to
  \<open>utils.Run\<close> in order, and the text printed.  An action returns its result or its
  exception together with the outside as it left it.
\<close>

record 'w io =
  world :: 'w
  calls :: "string list"
  stdout :: string

type_synonym ('w, 'a) action = "'w io \<Rightarrow> (error + 'a) \<times> 'w io"

definition sbind :: "('w, 'a) action \<Rightarrow> ('a \<Rightarrow> ('w, 'b) action) \<Rightarrow> ('w, 'b) action" where
  "sbind m f s = (case m s of (Inl e, s') \<Rightarrow> (Inl e, s') | (Inr x, s') \<Rightarrow> f x s')"

definition sreturn :: "'a \<Rightarrow> ('w, 'a) action" where
  "sreturn x s = (Inr x, s)"

definition sraise :: "error \<Rightarrow> ('w, 'a) action" where
  "sraise e s = (Inl e, s)"

definition slift :: "error + 'a \<Rightarrow> ('w, 'a) action" where
  "slift r s = (r, s)"

definition print :: "string \<Rightarrow> string \<Rightarrow> ('w, unit) action" where
  "print text ending s = (Inr (), s\<lparr>stdout := stdout s @ text @ ending\<rparr>)"

definition Run :: "'w env \<Rightarrow> string \<Rightarrow> ('w, unit) action" where
  "Run env query s =
     (case run env query (world s) of
        Inl e \<Rightarrow> (Inl e, s\<lparr>calls := calls s @ [query]\<rparr>)
      | Inr w \<Rightarrow> (Inr (), s\<lparr>world := w, calls := calls s @ [query]\<rparr>))"

definition os_op :: "('w \<Rightarrow> error + 'w) \<Rightarrow> ('w, unit) action" where
  "os_op f s = (case f (world s) of Inl e \<Rightarrow> (Inl e, s) | Inr w \<Rightarrow> (Inr (), s\<lparr>world := w\<rparr>))"

fun for_each :: "'a list \<Rightarrow> ('a \<Rightarrow> ('w, unit) action) \<Rightarrow> ('w, unit) action" where
  "for_each [] body = sreturn ()"
| "for_each (x # xs) body = sbind (body x) (\<lambda>_. for_each xs body)"

section \<open>ReverseTiling_mem\<close>

text \<open>
  The attributes of a \<open>ReverseTiling_mem\<close> object.  \<open>linesDict\<close> is an association list
  in insertion order, the order in which Python iterates over the keys of a dictionary.
\<close>

record self =
  workspace :: string
  cores :: nat
  motif :: "string list"
  linesDict :: "(nat \<times> string list) list"

text \<open>
  The local variables of a Python function body.  A name that the body assigns is local
  to it, and reading it before an assignment raises \<open>UnboundLocalError\<close>.  The body of
  \<open>removeBuffer\<close> assigns \<open>workspace\<close> (line 222) and reads it before (line 219).
\<close>

type_synonym locals = "string \<rightharpoonup> string"

definition read_local :: "locals \<Rightarrow> string \<Rightarrow> error + string" where
  "read_local l name = (case l name of None \<Rightarrow> Inl (UnboundLocalError name) | Some v \<Rightarrow> Inr v)"

definition get_ptSrcId :: "'w env \<Rightarrow> self \<Rightarrow> string \<Rightarrow> 'w \<Rightarrow> error + (string \<times> nat list)" where
  "get_ptSrcId env slf filename w =
     bind (pt_src_id env (workspace slf @ filename) w) (\<lambda>pts_srcid. Inr (filename, pts_srcid))"

text \<open>
  \<open>_mergeLines\<close>, lines 205 to 214.  The name of the output file is computed by
  \<open>mergeLines_name\<close>: \<open>"0"*diff\<close> is empty for a negative \<open>diff\<close>, and \<open>keyStr[0:-2]\<close>
  is \<open>keyStr\<close> without its last two characters.
\<close>

definition mergeLines_name :: "self \<Rightarrow> nat \<Rightarrow> nat \<Rightarrow> error + string" where
  "mergeLines_name slf key maxLen =
     (let keyStr = str_nat key;
          diff = maxLen - length keyStr
      in bind (py_index (motif slf) 0) (\<lambda>m0.
         bind (py_index (motif slf) 1) (\<lambda>m1.
         Inr (m0 @ replicate diff (CHR ''0'') @ take (length keyStr - 2) keyStr @ m1))))"

definition mergeLines :: "'w env \<Rightarrow> self \<Rightarrow> nat \<Rightarrow> nat \<Rightarrow> ('w, unit) action" where
  "mergeLines env slf key maxLen =
     (case map_of (linesDict slf) key of
        None \<Rightarrow> sraise KeyError
      | Some filenames \<Rightarrow>
          let query = ''lasmerge -i '' @ concat (map (\<lambda>filename. workspace slf @ filename @ '' '') filenames)
          in sbind (slift (mergeLines_name slf key maxLen)) (\<lambda>name.
             Run env (query @ ''-keep_point_source '' @ str_nat key @ '' -o '' @ workspace slf @ name)))"

definition removeBuffer :: "'w env \<Rightarrow> self \<Rightarrow> ('w, self) action" where
  "removeBuffer env slf =
     (let query = ''lastile -i '' @ workspace slf @ ''*.laz -remove_buffer -cores ''
                    @ str_nat (cores slf) @ '' -olaz'';
          l0 = (Map.empty :: locals)
      in sbind (Run env query) (\<lambda>_.
         sbind (slift (read_local l0 ''workspace'')) (\<lambda>ws0.
         sbind (\<lambda>s. (Inr (glob env (ws0 @ ''*_1.laz'') (world s)), s)) (\<lambda>paths.
         sbind (for_each paths (\<lambda>filepath.
                  let nom = basename filepath
                  in sbind (slift (read_local l0 ''workspace'')) (\<lambda>ws.
                     os_op (rename env (ws @ nom) (ws @ ''new_tile/'' @ nom))))) (\<lambda>_.
         sbind (slift (read_local l0 ''workspace'')) (\<lambda>ws.
         let l1 = l0(''workspace'' \<mapsto> ws @ ''new_tile/'')
         in sreturn slf))))))"

text \<open>
  \<open>searchingLines\<close>, lines 224 to 233.  The workers of \<open>joblib.Parallel\<close> only read, each
  its own file, and their results come back in the order of the file names; the model
  scans the files one after the other.
\<close>

definition dict_add :: "(nat \<times> string list) list \<Rightarrow> nat \<Rightarrow> string \<Rightarrow> (nat \<times> string list) list" where
  "dict_add d c name =
     (if c \<notin> set (map fst d) then d @ [(c, [name])]
      else map (\<lambda>(k, v). if k = c then (k, v @ [name]) else (k, v)) d)"

fun collect :: "'a list \<Rightarrow> ('a \<Rightarrow> error + 'b) \<Rightarrow> error + 'b list" where
  "collect [] f = Inr []"
| "collect (x # xs) f = bind (f x) (\<lambda>y. bind (collect xs f) (\<lambda>ys. Inr (y # ys)))"

definition searchingLines :: "'w env \<Rightarrow> self \<Rightarrow> ('w, self) action" where
  "searchingLines env slf s =
     (let listNames = map basename (glob env (workspace slf @ ''*.laz'') (world s))
      in case collect listNames (\<lambda>i. get_ptSrcId env slf i (world s)) of
           Inl e \<Rightarrow> (Inl e, s)
         | Inr result \<Rightarrow>
             (Inr (slf\<lparr>linesDict :=
                     fold (\<lambda>i d. fold (\<lambda>c d'. dict_add d' c (fst i)) (snd i) d) result []\<rparr>), s))"

definition writingLines :: "'w env \<Rightarrow> self \<Rightarrow> bool \<Rightarrow> ('w, unit) action" where
  "writingLines env slf buffer =
     sbind (slift (py_max (map fst (linesDict slf)))) (\<lambda>m.
     let maxPtSrcId = length (str_nat m)
     in sbind (for_each (map fst (linesDict slf)) (\<lambda>i.
                 sbind (print (str_nat i) [CHR 0x0A]) (\<lambda>_. mergeLines env slf i maxPtSrcId))) (\<lambda>_.
        if buffer then
          sbind (slift (py_index (motif slf) 0)) (\<lambda>m0.
          sbind (\<lambda>s. (Inr (map basename (glob env (workspace slf @ m0) (world s))), s)) (\<lambda>listNames.
          sbind (for_each listNames (\<lambda>filename.
                   os_op (rename env (workspace slf @ filename)
                            (take (length (workspace slf) - 9) (workspace slf) @ filename)))) (\<lambda>_.
          sbind (\<lambda>s. (Inr (glob env (workspace slf @ ''*_1.laz'') (world s)), s)) (\<lambda>paths.
          sbind (for_each paths (\<lambda>filepath. os_op (remove env filepath))) (\<lambda>_.
          os_op (rmdir env (workspace slf)))))))
        else sreturn ()))"

definition ReverseTiling_mem :: "'w env \<Rightarrow> string \<Rightarrow> string \<Rightarrow> bool \<Rightarrow> nat \<Rightarrow> ('w, self) action" where
  "ReverseTiling_mem env workspace0 fileroot buffer cores0 =
     sbind (print ''[Reverse Tiling memory friendly]'' [CHR 0x0A]) (\<lambda>_.
     let slf = \<lparr>workspace = workspace0, cores = cores0, motif = split_XX [] fileroot, linesDict = []\<rparr>
     in sbind (print ''Remove buffer...'' '' '') (\<lambda>_.
        sbind (if buffer then removeBuffer env slf else sreturn slf) (\<lambda>slf1.
        sbind (print ''done !'' [CHR 0x0A]) (\<lambda>_.
        sbind (print ''Searching flightlines...'' '' '') (\<lambda>_.
        sbind (searchingLines env slf1) (\<lambda>slf2.
        sbind (print ''done !'' [CHR 0x0A]) (\<lambda>_.
        sbind (print ''Writing flightlines...'' '''') (\<lambda>_.
        sbind (writingLines env slf2 buffer) (\<lambda>_.
        sbind (print ''done !'' [CHR 0x0A]) (\<lambda>_.
        sreturn slf2))))))))))"

section \<open>writeKML\<close>

text \<open>
  \<open>writeKML\<close>, lines 171 to 178.  A KML document is the list of its points; the outside
  holds the saved documents by path and the lines printed.  The \<open>try\<close> block catches the
  failed assertion and prints a message; the function then goes on.
\<close>

record ('d, 'c) kml_world =
  kml_files :: "string \<rightharpoonup> (string \<times> 'd \<times> 'c) list"
  kml_stdout :: "string list"

definition index_of :: "'a list \<Rightarrow> 'a \<Rightarrow> nat" where
  "index_of xs x = length (takeWhile (\<lambda>y. y \<noteq> x) xs)"

definition writeKML ::
  "string \<Rightarrow> string list \<Rightarrow> 'd list \<Rightarrow> 'c list \<Rightarrow> ('d, 'c) kml_world
     \<Rightarrow> (error + bool) \<times> ('d, 'c) kml_world" where
  "writeKML filepath names descriptions coordinates w =
     (let w1 = (if length names = length descriptions \<and> length names = length coordinates
                   \<and> length descriptions = length coordinates
                then w
                else w\<lparr>kml_stdout := kml_stdout w
                        @ [''Taille diff'' @ [CHR 0xC3, CHR 0xA9] @ ''rente pour names, description et coords !!'']\<rparr>)
      in case collect names (\<lambda>i.
                bind (py_index descriptions (index_of names i)) (\<lambda>d.
                bind (py_index coordinates (index_of names i)) (\<lambda>c.
                Inr (i, d, c)))) of
           Inl e \<Rightarrow> (Inl e, w1)
         | Inr fichier \<Rightarrow> (Inr True, w1\<lparr>kml_files := (kml_files w1)(filepath \<mapsto> fichier)\<rparr>))"

section \<open>Rounding to float64\<close>

text \<open>
  IEEE 754 binary64 with the default rounding, to nearest with ties to even.  A non-zero
  real \<open>x\<close> lies in the binade of exponent \<open>\<lfloor>log\<^sub>2 |x|\<rfloor>\<close>, at least \<open>-1022\<close> (below,
  the numbers are subnormal and share the spacing of the lowest binade); the spacing of
  the float64 values there is \<open>ulp x\<close>, 52 binary places below.  \<open>rnd64 x\<close> is the multiple
  of \<open>ulp x\<close> nearest to \<open>x\<close>, or an infinity when that multiple reaches \<open>2^1024\<close>.
  A float64 operation is the exact operation followed by the rounding of a finite result.
\<close>

definition binade :: "real \<Rightarrow> int" where
  "binade x = max \<lfloor>log 2 \<bar>x\<bar>\<rfloor> (- 1022)"

definition ulp :: "real \<Rightarrow> real" where
  "ulp x = 2 powr real_of_int (binade x - 52)"

definition round_even :: "real \<Rightarrow> int" where
  "round_even m =
     (if m - real_of_int \<lfloor>m\<rfloor> < 1 / 2 then \<lfloor>m\<rfloor>
      else if 1 / 2 < m - real_of_int \<lfloor>m\<rfloor> then \<lfloor>m\<rfloor> + 1
      else if even \<lfloor>m\<rfloor> then \<lfloor>m\<rfloor> else \<lfloor>m\<rfloor> + 1)"

definition rnd64 :: "real \<Rightarrow> npfloat" where
  "rnd64 x =
     (if x = 0 then Fin 0
      else let y = real_of_int (round_even (x / ulp x)) * ulp x
           in if 2 ^ 1024 \<le> \<bar>y\<bar> then (if 0 < x then PInf else NInf) else Fin y)"

definition fl_round :: "npfloat \<Rightarrow> npfloat" where
  "fl_round x = (case x of Fin r \<Rightarrow> rnd64 r | _ \<Rightarrow> x)"

definition fl_sub :: "npfloat \<Rightarrow> npfloat \<Rightarrow> npfloat" where
  "fl_sub x y = fl_round (fsub x y)"

definition fl_mul :: "npfloat \<Rightarrow> npfloat \<Rightarrow> npfloat" where
  "fl_mul x y = fl_round (fmul x y)"

definition fl_div :: "npfloat \<Rightarrow> npfloat \<Rightarrow> npfloat" where
  "fl_div x y = fl_round (fdiv x y)"

text \<open>The values an array of float64 can hold: the special values and the reals that
  rounding leaves unchanged.\<close>

fun is_float64 :: "npfloat \<Rightarrow> bool" where
  "is_float64 (Fin r) = (rnd64 r = Fin r)"
| "is_float64 _ = True"

section \<open>featureNorm\<close>

text \<open>
  \<open>featureNorm\<close>, lines 292 to 304.  A two-dimensional array is the list of its rows.
  \<open>finite_values col\<close> is \<open>col[np.isfinite(col)]\<close>; \<open>min\<close> and \<open>max\<close> of an empty
  sequence raise \<open>ValueError\<close>.  The subtractions, the division and the multiplication of
  line 301 are float64 operations.
\<close>

definition column :: "npfloat list list \<Rightarrow> nat \<Rightarrow> npfloat list" where
  "column dataset i = map (\<lambda>row. row ! i) dataset"

definition set_column :: "npfloat list list \<Rightarrow> nat \<Rightarrow> npfloat list \<Rightarrow> npfloat list list" where
  "set_column dataset i newcol = map2 (\<lambda>row v. row[i := v]) dataset newcol"

definition finite_values :: "npfloat list \<Rightarrow> real list" where
  "finite_values col = concat (map (\<lambda>x. case x of Fin r \<Rightarrow> [r] | _ \<Rightarrow> []) col)"

definition py_min_real :: "real list \<Rightarrow> error + real" where
  "py_min_real xs = (case xs of [] \<Rightarrow> Inl (ValueError ''min() arg is an empty sequence'')
                     | x # rest \<Rightarrow> Inr (fold min rest x))"

definition py_max_real :: "real list \<Rightarrow> error + real" where
  "py_max_real xs = (case xs of [] \<Rightarrow> Inl (ValueError ''max() arg is an empty sequence'')
                     | x # rest \<Rightarrow> Inr (fold max rest x))"

definition featureNorm_col :: "npfloat list \<Rightarrow> error + npfloat list" where
  "featureNorm_col col =
     (if list_all isnan col then Inr (replicate (length col) (Fin (- 1)))
      else bind (py_min_real (finite_values col)) (\<lambda>mini.
           bind (py_max_real (finite_values col)) (\<lambda>maxi.
           let newcol = map (\<lambda>x. fl_mul (fl_div (fl_sub x (Fin mini)) (fl_sub (Fin maxi) (Fin mini)))
                                     (Fin 100)) col
           in Inr (map (\<lambda>x. if isnan x then Fin (- 1) else x) newcol))))"

fun featureNorm_loop :: "nat list \<Rightarrow> npfloat list list \<Rightarrow> error + npfloat list list" where
  "featureNorm_loop [] dataset = Inr dataset"
| "featureNorm_loop (i # rest) dataset =
     bind (featureNorm_col (column dataset i)) (\<lambda>newcol.
     featureNorm_loop rest (set_column dataset i newcol))"

definition featureNorm :: "npfloat list list \<Rightarrow> error + npfloat list list" where
  "featureNorm dataset =
     (case dataset of [] \<Rightarrow> Inl IndexError
      | row0 # _ \<Rightarrow> featureNorm_loop [0..<length row0] dataset)"

text \<open>
  A concrete outside for evaluation: an empty workspace, tools that always succeed, and a
  file system state that records the renames it is asked for.
\<close>

definition io0 :: "(string \<times> string) list io" where
  "io0 = \<lparr>world = [], calls = [], stdout = ''''\<rparr>"

definition stub_env :: "(string \<times> string) list env" where
  "stub_env = \<lparr>run = (\<lambda>q w. Inr w), glob = (\<lambda>p w. []), rename = (\<lambda>a b w. Inr (w @ [(a, b)])),
     remove = (\<lambda>p w. Inr w), rmdir = (\<lambda>p w. Inr w), pt_src_id = (\<lambda>p w. Inr [])\<rparr>"

text \<open>Two objects, after \<open>searchingLines\<close>: one flightline 7 in two files, and none.\<close>

definition slf7 :: self where
  "slf7 = \<lparr>workspace = ''/data/'', cores = 50, motif = split_XX [] ''tile_XX.laz'',
            linesDict = [(7, [''fileX'', ''fileY''])]\<rparr>"

definition slf_empty :: self where
  "slf_empty = \<lparr>workspace = ''/data/'', cores = 50, motif = split_XX [] ''tile_XX.laz'',
            linesDict = []\<rparr>"

text \<open>All rows of an array have the same length.\<close>

definition rect :: "nat \<Rightarrow> npfloat list list \<Rightarrow> bool" where
  "rect n dataset = (\<forall>row \<in> set dataset. length row = n)"

text \<open>All entries of an array are float64 values.\<close>

definition float64_array :: "npfloat list list \<Rightarrow> bool" where
  "float64_array dataset = (\<forall>row \<in> set dataset. \<forall>x \<in> set row. is_float64 x)"

text \<open>The largest power of two that float64 holds.\<close>

definition huge :: real where
  "huge = 2 ^ 1023"

section \<open>The bearing where its denominator vanishes\<close>

text \<open>
  Claim C4, on the code.  The denominator \<open>\<parallel>v_xy\<parallel> + vy\<close> of line 45 is not guarded: for
  the vertical shot \<open>(0, 0, 1)\<close> and for \<open>(0, -1, 1)\<close>, where \<open>vx = 0\<close> and
  \<open>vy = -\<parallel>v_xy\<parallel>\<close>, the quotient is \<open>0/0\<close> and the bearing is NaN, not a finite angle.
  Every float64 operation of these two evaluations is exact.
\<close>

theorem gisement_vertical_nan:
  "isnan (gisement (Fin 0, Fin 0, Fin 1)) \<and> isnan (gisement (Fin 0, Fin (- 1), Fin 1))"
  by (simp add: gisement_def norm2_def c0_def c1_def)

section \<open>The batch code, row by row\<close>

lemma broadcast_same: "length xs = length ys \<Longrightarrow> broadcast f xs ys = Inr (map2 f xs ys)"
  by (simp add: broadcast_def)

lemma bind_Inr: "bind (Inr x) f = f x"
  by (simp add: bind_def)

lemma bind_Inl: "bind (Inl e) f = Inl e"
  by (simp add: bind_def)

lemma map2_len: "length xs = n \<Longrightarrow> length ys = n \<Longrightarrow> length (map2 f xs ys) = n"
  by simp

lemma map2_nth: "length xs = n \<Longrightarrow> length ys = n \<Longrightarrow> i < n \<Longrightarrow> map2 f xs ys ! i = f (xs ! i) (ys ! i)"
  by simp

lemma broadcast_n:
  "length xs = n \<Longrightarrow> length ys = n \<Longrightarrow> broadcast f xs ys = Inr (map2 f xs ys)"
  by (simp add: broadcast_def)

lemma core_chain:
  assumes lp: "length pt_app = n" and ld: "length depthApp = n"
    and la: "length thA = n" and lt: "length thT = n" and lg: "length g = n"
  shows "bind (broadcast fmul depthApp (map fcos thA)) (\<lambda>num.
     bind (broadcast fdiv num (map (\<lambda>t. fmul indRefr (fcos t)) thT)) (\<lambda>depthTrue.
     bind (broadcast fmul depthApp (map ftan thA)) (\<lambda>dApp.
     bind (broadcast fmul depthTrue (map ftan thT)) (\<lambda>dTrue.
     bind (broadcast fsub dApp dTrue) (\<lambda>distPlan.
     bind (broadcast fmul distPlan (map fsin g)) (\<lambda>sx.
     bind (broadcast fadd (map c0 pt_app) sx) (\<lambda>row0.
     bind (broadcast fmul distPlan (map fcos g)) (\<lambda>sy.
     bind (broadcast fadd (map c1 pt_app) sy) (\<lambda>row1.
     bind (broadcast fadd (map c2 pt_app) depthTrue) (\<lambda>sz.
     bind (broadcast fsub sz depthApp) (\<lambda>row2.
     bind (vstack_T row0 row1 row2) (\<lambda>coords.
     Inr (coords, depthTrue)))))))))))))
   = Inr (map (\<lambda>i.
            (let depthTrue = fdiv (fmul (depthApp ! i) (fcos (thA ! i))) (fmul indRefr (fcos (thT ! i)));
                 distPlan = fsub (fmul (depthApp ! i) (ftan (thA ! i))) (fmul depthTrue (ftan (thT ! i)))
             in (fadd (c0 (pt_app ! i)) (fmul distPlan (fsin (g ! i))),
                 fadd (c1 (pt_app ! i)) (fmul distPlan (fcos (g ! i))),
                 fsub (fadd (c2 (pt_app ! i)) depthTrue) (depthApp ! i)))) [0..<n],
          map (\<lambda>i. fdiv (fmul (depthApp ! i) (fcos (thA ! i))) (fmul indRefr (fcos (thT ! i)))) [0..<n])"
proof -
  define num where "num = map2 fmul depthApp (map fcos thA)"
  define depthTrue where "depthTrue = map2 fdiv num (map (\<lambda>t. fmul indRefr (fcos t)) thT)"
  define dApp where "dApp = map2 fmul depthApp (map ftan thA)"
  define dTrue where "dTrue = map2 fmul depthTrue (map ftan thT)"
  define distPlan where "distPlan = map2 fsub dApp dTrue"
  define sx where "sx = map2 fmul distPlan (map fsin g)"
  define row0 where "row0 = map2 fadd (map c0 pt_app) sx"
  define sy where "sy = map2 fmul distPlan (map fcos g)"
  define row1 where "row1 = map2 fadd (map c1 pt_app) sy"
  define sz where "sz = map2 fadd (map c2 pt_app) depthTrue"
  define row2 where "row2 = map2 fsub sz depthApp"
  have l1: "length num = n" unfolding num_def using ld la by (intro map2_len) simp_all
  have l2: "length depthTrue = n" unfolding depthTrue_def using l1 lt by (intro map2_len) simp_all
  have l3: "length dApp = n" unfolding dApp_def using ld la by (intro map2_len) simp_all
  have l4: "length dTrue = n" unfolding dTrue_def using l2 lt by (intro map2_len) simp_all
  have l5: "length distPlan = n" unfolding distPlan_def using l3 l4 by (intro map2_len) simp_all
  have l6: "length sx = n" unfolding sx_def using l5 lg by (intro map2_len) simp_all
  have l7: "length row0 = n" unfolding row0_def using l6 lp by (intro map2_len) simp_all
  have l8: "length sy = n" unfolding sy_def using l5 lg by (intro map2_len) simp_all
  have l9: "length row1 = n" unfolding row1_def using l8 lp by (intro map2_len) simp_all
  have l10: "length sz = n" unfolding sz_def using l2 lp by (intro map2_len) simp_all
  have l11: "length row2 = n" unfolding row2_def using l10 ld by (intro map2_len) simp_all
  have b1: "broadcast fmul depthApp (map fcos thA) = Inr num"
    unfolding num_def using ld la by (intro broadcast_n[of _ n]) simp_all
  have b2: "broadcast fdiv num (map (\<lambda>t. fmul indRefr (fcos t)) thT) = Inr depthTrue"
    unfolding depthTrue_def using l1 lt by (intro broadcast_n[of _ n]) simp_all
  have b3: "broadcast fmul depthApp (map ftan thA) = Inr dApp"
    unfolding dApp_def using ld la by (intro broadcast_n[of _ n]) simp_all
  have b4: "broadcast fmul depthTrue (map ftan thT) = Inr dTrue"
    unfolding dTrue_def using l2 lt by (intro broadcast_n[of _ n]) simp_all
  have b5: "broadcast fsub dApp dTrue = Inr distPlan"
    unfolding distPlan_def using l3 l4 by (intro broadcast_n[of _ n]) simp_all
  have b6: "broadcast fmul distPlan (map fsin g) = Inr sx"
    unfolding sx_def using l5 lg by (intro broadcast_n[of _ n]) simp_all
  have b7: "broadcast fadd (map c0 pt_app) sx = Inr row0"
    unfolding row0_def using l6 lp by (intro broadcast_n[of _ n]) simp_all
  have b8: "broadcast fmul distPlan (map fcos g) = Inr sy"
    unfolding sy_def using l5 lg by (intro broadcast_n[of _ n]) simp_all
  have b9: "broadcast fadd (map c1 pt_app) sy = Inr row1"
    unfolding row1_def using l8 lp by (intro broadcast_n[of _ n]) simp_all
  have b10: "broadcast fadd (map c2 pt_app) depthTrue = Inr sz"
    unfolding sz_def using l2 lp by (intro broadcast_n[of _ n]) simp_all
  have b11: "broadcast fsub sz depthApp = Inr row2"
    unfolding row2_def using l10 ld by (intro broadcast_n[of _ n]) simp_all
  have b12: "vstack_T row0 row1 row2 = Inr (zip row0 (zip row1 row2))"
    using l7 l9 l11 by (simp add: vstack_T_def)
  have chain: "bind (broadcast fmul depthApp (map fcos thA)) (\<lambda>num.
     bind (broadcast fdiv num (map (\<lambda>t. fmul indRefr (fcos t)) thT)) (\<lambda>depthTrue.
     bind (broadcast fmul depthApp (map ftan thA)) (\<lambda>dApp.
     bind (broadcast fmul depthTrue (map ftan thT)) (\<lambda>dTrue.
     bind (broadcast fsub dApp dTrue) (\<lambda>distPlan.
     bind (broadcast fmul distPlan (map fsin g)) (\<lambda>sx.
     bind (broadcast fadd (map c0 pt_app) sx) (\<lambda>row0.
     bind (broadcast fmul distPlan (map fcos g)) (\<lambda>sy.
     bind (broadcast fadd (map c1 pt_app) sy) (\<lambda>row1.
     bind (broadcast fadd (map c2 pt_app) depthTrue) (\<lambda>sz.
     bind (broadcast fsub sz depthApp) (\<lambda>row2.
     bind (vstack_T row0 row1 row2) (\<lambda>coords.
     Inr (coords, depthTrue))))))))))))) = Inr (zip row0 (zip row1 row2), depthTrue)"
    by (simp only: b1 b2 b3 b4 b5 b6 b7 b8 b9 b10 b11 b12 bind_Inr)
  have n1: "num ! i = fmul (depthApp ! i) (fcos (thA ! i))" if "i < n" for i
    unfolding num_def using that ld la by (simp add: map2_nth[of _ n])
  have n2: "depthTrue ! i = fdiv (fmul (depthApp ! i) (fcos (thA ! i))) (fmul indRefr (fcos (thT ! i)))"
    if "i < n" for i
    unfolding depthTrue_def using that l1 lt n1[OF that] by (simp add: map2_nth[of _ n])
  have n3: "dApp ! i = fmul (depthApp ! i) (ftan (thA ! i))" if "i < n" for i
    unfolding dApp_def using that ld la by (simp add: map2_nth[of _ n])
  have n4: "dTrue ! i = fmul (depthTrue ! i) (ftan (thT ! i))" if "i < n" for i
    unfolding dTrue_def using that l2 lt by (simp add: map2_nth[of _ n])
  have n5: "distPlan ! i = fsub (dApp ! i) (dTrue ! i)" if "i < n" for i
    unfolding distPlan_def using that l3 l4 by (simp add: map2_nth[of _ n])
  have n7: "row0 ! i = fadd (c0 (pt_app ! i)) (fmul (distPlan ! i) (fsin (g ! i)))" if "i < n" for i
    unfolding row0_def sx_def using that l5 lg lp by (simp add: map2_nth[of _ n])
  have n9: "row1 ! i = fadd (c1 (pt_app ! i)) (fmul (distPlan ! i) (fcos (g ! i)))" if "i < n" for i
    unfolding row1_def sy_def using that l5 lg lp by (simp add: map2_nth[of _ n])
  have n11: "row2 ! i = fsub (fadd (c2 (pt_app ! i)) (depthTrue ! i)) (depthApp ! i)" if "i < n" for i
    unfolding row2_def sz_def using that l2 ld lp by (simp add: map2_nth[of _ n])
  have rows: "zip row0 (zip row1 row2) ! i =
      (fadd (c0 (pt_app ! i)) (fmul (distPlan ! i) (fsin (g ! i))),
       fadd (c1 (pt_app ! i)) (fmul (distPlan ! i) (fcos (g ! i))),
       fsub (fadd (c2 (pt_app ! i)) (depthTrue ! i)) (depthApp ! i))" if "i < n" for i
    using that l7 l9 l11 n7[OF that] n9[OF that] n11[OF that] by simp
  have dp: "distPlan ! i = fsub (fmul (depthApp ! i) (ftan (thA ! i))) (fmul (depthTrue ! i) (ftan (thT ! i)))"
    if "i < n" for i
    using n5[OF that] n3[OF that] n4[OF that] by simp
  have e1: "zip row0 (zip row1 row2) = map (\<lambda>i.
            (let depthTrue = fdiv (fmul (depthApp ! i) (fcos (thA ! i))) (fmul indRefr (fcos (thT ! i)));
                 distPlan = fsub (fmul (depthApp ! i) (ftan (thA ! i))) (fmul depthTrue (ftan (thT ! i)))
             in (fadd (c0 (pt_app ! i)) (fmul distPlan (fsin (g ! i))),
                 fadd (c1 (pt_app ! i)) (fmul distPlan (fcos (g ! i))),
                 fsub (fadd (c2 (pt_app ! i)) depthTrue) (depthApp ! i)))) [0..<n]"
  proof (rule nth_equalityI)
    show "length (zip row0 (zip row1 row2)) = length (map (\<lambda>i.
            (let depthTrue = fdiv (fmul (depthApp ! i) (fcos (thA ! i))) (fmul indRefr (fcos (thT ! i)));
                 distPlan = fsub (fmul (depthApp ! i) (ftan (thA ! i))) (fmul depthTrue (ftan (thT ! i)))
             in (fadd (c0 (pt_app ! i)) (fmul distPlan (fsin (g ! i))),
                 fadd (c1 (pt_app ! i)) (fmul distPlan (fcos (g ! i))),
                 fsub (fadd (c2 (pt_app ! i)) depthTrue) (depthApp ! i)))) [0..<n])"
      using l7 l9 l11 by simp
  next
    fix i assume "i < length (zip row0 (zip row1 row2))"
    then have i: "i < n" using l7 l9 l11 by simp
    show "zip row0 (zip row1 row2) ! i = map (\<lambda>i.
            (let depthTrue = fdiv (fmul (depthApp ! i) (fcos (thA ! i))) (fmul indRefr (fcos (thT ! i)));
                 distPlan = fsub (fmul (depthApp ! i) (ftan (thA ! i))) (fmul depthTrue (ftan (thT ! i)))
             in (fadd (c0 (pt_app ! i)) (fmul distPlan (fsin (g ! i))),
                 fadd (c1 (pt_app ! i)) (fmul distPlan (fcos (g ! i))),
                 fsub (fadd (c2 (pt_app ! i)) depthTrue) (depthApp ! i)))) [0..<n] ! i"
      unfolding rows[OF i] dp[OF i] n2[OF i] Let_def using i by simp
  qed
  have e2: "depthTrue = map (\<lambda>i. fdiv (fmul (depthApp ! i) (fcos (thA ! i))) (fmul indRefr (fcos (thT ! i)))) [0..<n]"
    using l2 n2 by (intro nth_equalityI) simp_all
  show ?thesis unfolding chain using e1 e2 by simp
qed

lemma correction3D_rows:
  assumes sv: "shot_vectors pt_app pt_shot vectorApp = Inr vs"
    and lv: "length vs = length pt_app" and ld: "length depthApp = length pt_app"
  shows "correction3D pt_app depthApp pt_shot vectorApp indRefr =
         Inr (map (\<lambda>i. fst (point_row indRefr (pt_app ! i) (depthApp ! i) (vs ! i))) [0..<length pt_app],
              map (\<lambda>i. snd (point_row indRefr (pt_app ! i) (depthApp ! i) (vs ! i))) [0..<length pt_app])"
proof -
  define n where "n = length pt_app"
  define thA where "thA = map farccos (map2 fdiv (map c2 vs) (map norm3 vs))"
  define thT where "thT = map (\<lambda>t. farcsin (fdiv (fsin t) indRefr)) thA"
  define g where "g = map gisement vs"
  have lp: "length pt_app = n" by (simp add: n_def)
  have ld': "length depthApp = n" using ld by (simp add: n_def)
  have lv': "length vs = n" using lv by (simp add: n_def)
  have la: "length thA = n" unfolding thA_def using lv' by simp
  have lt: "length thT = n" unfolding thT_def using la by simp
  have lg: "length g = n" unfolding g_def using lv' by simp
  have a: "thA ! i = farccos (fdiv (c2 (vs ! i)) (norm3 (vs ! i)))" if "i < n" for i
    unfolding thA_def using that lv' by simp
  have t: "thT ! i = farcsin (fdiv (fsin (thA ! i)) indRefr)" if "i < n" for i
    unfolding thT_def using that la by simp
  have gi: "g ! i = gisement (vs ! i)" if "i < n" for i
    unfolding g_def using that lv' by simp
  have "correction3D pt_app depthApp pt_shot vectorApp indRefr =
     bind (broadcast fmul depthApp (map fcos thA)) (\<lambda>num.
     bind (broadcast fdiv num (map (\<lambda>t. fmul indRefr (fcos t)) thT)) (\<lambda>depthTrue.
     bind (broadcast fmul depthApp (map ftan thA)) (\<lambda>dApp.
     bind (broadcast fmul depthTrue (map ftan thT)) (\<lambda>dTrue.
     bind (broadcast fsub dApp dTrue) (\<lambda>distPlan.
     bind (broadcast fmul distPlan (map fsin g)) (\<lambda>sx.
     bind (broadcast fadd (map c0 pt_app) sx) (\<lambda>row0.
     bind (broadcast fmul distPlan (map fcos g)) (\<lambda>sy.
     bind (broadcast fadd (map c1 pt_app) sy) (\<lambda>row1.
     bind (broadcast fadd (map c2 pt_app) depthTrue) (\<lambda>sz.
     bind (broadcast fsub sz depthApp) (\<lambda>row2.
     bind (vstack_T row0 row1 row2) (\<lambda>coords.
     Inr (coords, depthTrue)))))))))))))"
    unfolding correction3D_def sv bind_Inr Let_def thA_def thT_def g_def ..
  also note core_chain[OF lp ld' la lt lg, of indRefr]
  also have "map (\<lambda>i.
            (let depthTrue = fdiv (fmul (depthApp ! i) (fcos (thA ! i))) (fmul indRefr (fcos (thT ! i)));
                 distPlan = fsub (fmul (depthApp ! i) (ftan (thA ! i))) (fmul depthTrue (ftan (thT ! i)))
             in (fadd (c0 (pt_app ! i)) (fmul distPlan (fsin (g ! i))),
                 fadd (c1 (pt_app ! i)) (fmul distPlan (fcos (g ! i))),
                 fsub (fadd (c2 (pt_app ! i)) depthTrue) (depthApp ! i)))) [0..<n]
        = map (\<lambda>i. fst (point_row indRefr (pt_app ! i) (depthApp ! i) (vs ! i))) [0..<n]"
    by (rule map_cong[OF refl]) (simp add: t a gi point_row_def Let_def)
  also have "map (\<lambda>i. fdiv (fmul (depthApp ! i) (fcos (thA ! i))) (fmul indRefr (fcos (thT ! i)))) [0..<n]
        = map (\<lambda>i. snd (point_row indRefr (pt_app ! i) (depthApp ! i) (vs ! i))) [0..<n]"
    by (rule map_cong[OF refl]) (simp add: t a point_row_def Let_def)
  finally show ?thesis unfolding n_def .
qed





text \<open>
  Claim C6, on the code.  For a shot from straight above the point (discrete mode, point
  at the origin, depth 1, shot origin \<open>(0, 0, 1)\<close>) and refraction index 1, the result is
  not the input: the bearing is NaN, and with it the two horizontal coordinates of the
  returned point.  Every float64 operation of this evaluation is exact.
\<close>

theorem correction3D_vertical_shot:
  "correction3D [(Fin 0, Fin 0, Fin 0)] [Fin 1] [(Fin 0, Fin 0, Fin 1)] [] (Fin 1)
   = Inr ([(NaN, NaN, Fin 0)], [Fin 1])"
proof -
  have sv: "shot_vectors [(Fin 0, Fin 0, Fin 0)] [(Fin 0, Fin 0, Fin 1)] [] = Inr [(Fin 0, Fin 0, Fin 1)]"
    by (simp add: shot_vectors_def broadcast_def vsub_def c0_def c1_def c2_def fsub_def)
  have g: "gisement (Fin 0, Fin 0, Fin 1) = NaN"
    by (simp add: gisement_def norm2_def c0_def c1_def)
  have n: "norm3 (Fin 0, Fin 0, Fin 1) = Fin 1"
    by (simp add: norm3_def c0_def c1_def c2_def)
  have "point_row (Fin 1) (Fin 0, Fin 0, Fin 0) (Fin 1) (Fin 0, Fin 0, Fin 1)
        = ((NaN, NaN, Fin 0), Fin 1)"
    unfolding point_row_def Let_def g n by (simp add: c0_def c1_def c2_def fsub_def)
  then show ?thesis
    using correction3D_rows[OF sv, of "[Fin 1]" "Fin 1"] by simp
qed

lemma bind_neq: "m \<noteq> Inl E \<Longrightarrow> (\<And>x. f x \<noteq> Inl E) \<Longrightarrow> bind m f \<noteq> Inl E"
  by (cases m) (simp_all add: bind_def)

lemma broadcast_neq: "broadcast f xs ys \<noteq> Inl null_both"
  by (simp add: broadcast_def broadcast_error_def null_both_def)

lemma vstack_neq: "vstack_T a b c \<noteq> Inl null_both"
  by (simp add: vstack_T_def null_both_def)

lemma correction3D_other_errors:
  assumes "shot_vectors pt_app pt_shot vectorApp \<noteq> Inl null_both"
  shows "correction3D pt_app depthApp pt_shot vectorApp indRefr \<noteq> Inl null_both"
  unfolding correction3D_def Let_def
  by (intro bind_neq broadcast_neq vstack_neq assms) simp

text \<open>
  Claim C5.  \<open>correction3D\<close> raises its \<open>ValueError\<close> (and so returns no output)
  exactly when \<open>pt_shot\<close> and \<open>vectorApp\<close> are both empty or both non-empty; when
  exactly one of them is supplied, with as many rows as there are points and depths, it
  raises no error at all.
\<close>

theorem correction3D_null_both_iff:
  "(correction3D pt_app depthApp pt_shot vectorApp indRefr = Inl null_both
      \<longleftrightarrow> (pt_shot = [] \<and> vectorApp = []) \<or> (pt_shot \<noteq> [] \<and> vectorApp \<noteq> []))
   \<and> (length depthApp = length pt_app \<and>
        ((pt_shot \<noteq> [] \<and> vectorApp = [] \<and> length pt_shot = length pt_app) \<or>
         (pt_shot = [] \<and> vectorApp \<noteq> [] \<and> length vectorApp = length pt_app))
      \<longrightarrow> (\<exists>r. correction3D pt_app depthApp pt_shot vectorApp indRefr = Inr r))"
proof (intro conjI impI)
  show "correction3D pt_app depthApp pt_shot vectorApp indRefr = Inl null_both
      \<longleftrightarrow> (pt_shot = [] \<and> vectorApp = []) \<or> (pt_shot \<noteq> [] \<and> vectorApp \<noteq> [])"
  proof (cases "(pt_shot = [] \<and> vectorApp = []) \<or> (pt_shot \<noteq> [] \<and> vectorApp \<noteq> [])")
    case True
    then have "shot_vectors pt_app pt_shot vectorApp = Inl null_both"
      by (auto simp add: shot_vectors_def)
    then show ?thesis using True by (simp add: correction3D_def bind_Inl)
  next
    case False
    then have "shot_vectors pt_app pt_shot vectorApp \<noteq> Inl null_both"
      by (auto simp add: shot_vectors_def broadcast_neq)
    then show ?thesis using False correction3D_other_errors by blast
  qed
next
  assume a: "length depthApp = length pt_app \<and>
        ((pt_shot \<noteq> [] \<and> vectorApp = [] \<and> length pt_shot = length pt_app) \<or>
         (pt_shot = [] \<and> vectorApp \<noteq> [] \<and> length vectorApp = length pt_app))"
  have "\<exists>vs. shot_vectors pt_app pt_shot vectorApp = Inr vs \<and> length vs = length pt_app"
  proof (cases "pt_shot = []")
    case True
    with a have "vectorApp \<noteq> []" and "length vectorApp = length pt_app" by auto
    with True show ?thesis by (auto simp add: shot_vectors_def)
  next
    case False
    with a have "vectorApp = []" and "length pt_shot = length pt_app" by auto
    with False show ?thesis by (auto simp add: shot_vectors_def broadcast_def)
  qed
  then obtain vs where sv: "shot_vectors pt_app pt_shot vectorApp = Inr vs"
    and lv: "length vs = length pt_app" by blast
  from correction3D_rows[OF sv lv, of depthApp indRefr] a
  show "\<exists>r. correction3D pt_app depthApp pt_shot vectorApp indRefr = Inr r" by simp
qed

text \<open>
  Both empty and both supplied raise the error; vectors alone give a result.
\<close>

theorem correction3D_null_both_iff_witness:
  "correction3D [(Fin 0, Fin 0, Fin 0)] [Fin 1] [] [] (Fin 1) = Inl null_both \<and>
   correction3D [(Fin 0, Fin 0, Fin 0)] [Fin 1] [(Fin 0, Fin 0, Fin 5)] [(Fin 0, Fin 1, Fin 1)] (Fin 1)
     = Inl null_both \<and>
   (\<exists>r. correction3D [(Fin 0, Fin 0, Fin 0)] [Fin 1] [] [(Fin 0, Fin 1, Fin 1)] (Fin 1) = Inr r)"
  using correction3D_null_both_iff[of "[(Fin 0, Fin 0, Fin 0)]" "[Fin 1]" "[]" "[]" "Fin 1"]
    correction3D_null_both_iff[of "[(Fin 0, Fin 0, Fin 0)]" "[Fin 1]" "[(Fin 0, Fin 0, Fin 5)]"
      "[(Fin 0, Fin 1, Fin 1)]" "Fin 1"]
    correction3D_null_both_iff[of "[(Fin 0, Fin 0, Fin 0)]" "[Fin 1]" "[]" "[(Fin 0, Fin 1, Fin 1)]" "Fin 1"]
  by simp

section \<open>Flightline reconstruction and KML export, evaluated\<close>

lemma read_local_empty: "read_local Map.empty name = Inl (UnboundLocalError name)"
  by (simp add: read_local_def)

lemma sbind_slift_Inl: "sbind (slift (Inl e)) f = sraise e"
  by (rule ext) (simp add: sbind_def slift_def sraise_def)

lemma removeBuffer_eq:
  "removeBuffer env slf =
     sbind (Run env (''lastile -i '' @ workspace slf @ ''*.laz -remove_buffer -cores ''
                    @ str_nat (cores slf) @ '' -olaz''))
       (\<lambda>_. sraise (UnboundLocalError ''workspace''))"
  unfolding removeBuffer_def Let_def read_local_empty sbind_slift_Inl ..

text \<open>
  Whatever the outside, \<open>removeBuffer\<close> never returns normally.
\<close>

lemma removeBuffer_never_returns: "fst (removeBuffer env slf s) \<noteq> Inr slf'"
  unfolding removeBuffer_eq
  by (cases "Run env (''lastile -i '' @ workspace slf @ ''*.laz -remove_buffer -cores ''
                    @ str_nat (cores slf) @ '' -olaz'') s" rule: prod.exhaust)
     (auto simp add: sbind_def sraise_def split: sum.splits)

text \<open>
  Claim C1, on the code.  On a workspace without tile files \<open>searchingLines\<close> leaves an
  empty \<open>linesDict\<close> and no merge is invoked, but \<open>writingLines\<close> does not complete: the
  \<open>max\<close> of the empty list of keys (line 236) raises \<open>ValueError\<close>, and the construction
  of the object fails with it.
\<close>

theorem empty_workspace_raises:
  "searchingLines stub_env slf_empty io0 = (Inr slf_empty, io0) \<and>
   writingLines stub_env slf_empty False io0
     = (Inl (ValueError ''max() arg is an empty sequence''), io0) \<and>
   fst (ReverseTiling_mem stub_env ''/data/'' ''tile_XX.laz'' False 50 io0)
     = Inl (ValueError ''max() arg is an empty sequence'') \<and>
   calls (snd (ReverseTiling_mem stub_env ''/data/'' ''tile_XX.laz'' False 50 io0)) = []"
  by code_simp

text \<open>
  Claim C2, on the code.  With \<open>linesDict = {7: [fileX, fileY]}\<close> and the template
  \<open>tile_XX.laz\<close> the output file is named \<open>tile_.laz\<close>, not \<open>tile_7.laz\<close>: the name embeds
  the identifier without its last two characters.
\<close>

theorem mergeLines_drops_identifier:
  "mergeLines_name slf7 7 1 = Inr ''tile_.laz'' \<and>
   writingLines stub_env slf7 False io0 =
     (Inr (), io0\<lparr>calls := [''lasmerge -i /data/fileX /data/fileY -keep_point_source 7 -o /data/tile_.laz''],
                  stdout := ''7'' @ [CHR 0x0A]\<rparr>)"
  by code_simp

text \<open>
  Claim C3, on the code.  With the buffer flag set, the construction invokes the tiling
  tool and then fails with \<open>UnboundLocalError\<close> on the name \<open>workspace\<close>: no file is moved
  (the recorded renames stay empty) and no later phase runs.
\<close>

theorem removeBuffer_unbound_local:
  "ReverseTiling_mem stub_env ''/data/'' ''tile_XX.laz'' True 50 io0 =
     (Inl (UnboundLocalError ''workspace''),
      \<lparr>world = [], calls = [''lastile -i /data/*.laz -remove_buffer -cores 50 -olaz''],
       stdout = ''[Reverse Tiling memory friendly]'' @ [CHR 0x0A] @ ''Remove buffer... ''\<rparr>)"
  by code_simp

text \<open>
  Claim C9, on the code.  With one name, two descriptions and one coordinate, \<open>writeKML\<close>
  raises nothing: it returns \<open>True\<close> and saves a document with one point.
\<close>

theorem writeKML_swallows_mismatch:
  "fst (writeKML ''out.kml'' [''a''] [''d1'', ''d2''] [(1::int, 2::int)]
          \<lparr>kml_files = Map.empty, kml_stdout = []\<rparr>) = Inr True \<and>
   kml_files (snd (writeKML ''out.kml'' [''a''] [''d1'', ''d2''] [(1::int, 2::int)]
          \<lparr>kml_files = Map.empty, kml_stdout = []\<rparr>)) ''out.kml'' = Some [(''a'', ''d1'', (1, 2))]"
  by code_simp

section \<open>Columns of an array\<close>

lemma set_finite_values: "set (finite_values col) = {r. Fin r \<in> set col}"
  by (induction col) (auto simp add: finite_values_def split: npfloat.splits)

lemma py_min_real_Min:
  assumes "xs \<noteq> []"
  shows "py_min_real xs = Inr (Min (set xs))"
proof (cases xs)
  case Nil
  with assms show ?thesis by simp
next
  case (Cons x rest)
  have "fold min rest x = Min (set (x # rest))" by (rule Min.set_eq_fold[symmetric])
  then show ?thesis using Cons by (simp add: py_min_real_def)
qed

lemma py_max_real_Max:
  assumes "xs \<noteq> []"
  shows "py_max_real xs = Inr (Max (set xs))"
proof (cases xs)
  case Nil
  with assms show ?thesis by simp
next
  case (Cons x rest)
  have "fold max rest x = Max (set (x # rest))" by (rule Max.set_eq_fold[symmetric])
  then show ?thesis using Cons by (simp add: py_max_real_def)
qed

lemma featureNorm_col_length: "featureNorm_col col = Inr c \<Longrightarrow> length c = length col"
  by (auto simp add: featureNorm_col_def bind_def Let_def split: if_splits sum.splits)

lemma col_all_nan:
  "list_all isnan col \<Longrightarrow> featureNorm_col col = Inr (replicate (length col) (Fin (- 1)))"
  by (simp add: featureNorm_col_def)

lemma length_set_column: "length c = length ds \<Longrightarrow> length (set_column ds i c) = length ds"
  by (simp add: set_column_def)

lemma rect_set_column: "rect n ds \<Longrightarrow> rect n (set_column ds i c)"
  by (auto simp add: rect_def set_column_def dest!: set_zip_leftD)

lemma nth_set_column:
  "length c = length ds \<Longrightarrow> k < length ds \<Longrightarrow> set_column ds i c ! k = (ds ! k)[i := c ! k]"
  by (simp add: set_column_def)

lemma column_set_column_same:
  assumes "rect n ds" "length c = length ds" "i < n"
  shows "column (set_column ds i c) i = c"
proof (rule nth_equalityI)
  show "length (column (set_column ds i c) i) = length c"
    using assms by (simp add: column_def length_set_column)
next
  fix k assume "k < length (column (set_column ds i c) i)"
  then have k: "k < length ds" using assms by (simp add: column_def length_set_column)
  then have "ds ! k \<in> set ds" by simp
  with assms have "i < length (ds ! k)" by (simp add: rect_def)
  then show "column (set_column ds i c) i ! k = c ! k"
    using k assms by (simp add: column_def length_set_column nth_set_column)
qed

lemma column_set_column_other:
  assumes "length c = length ds" "j \<noteq> i"
  shows "column (set_column ds i c) j = column ds j"
proof (rule nth_equalityI)
  show "length (column (set_column ds i c) j) = length (column ds j)"
    using assms by (simp add: column_def length_set_column)
next
  fix k assume "k < length (column (set_column ds i c) j)"
  then have k: "k < length ds" using assms by (simp add: column_def length_set_column)
  then show "column (set_column ds i c) j ! k = column ds j ! k"
    using assms by (simp add: column_def length_set_column nth_set_column)
qed

lemma featureNorm_loop_columns:
  assumes "rect n ds" "distinct is" "\<forall>i \<in> set is. i < n"
    and "\<forall>i \<in> set is. \<exists>c. featureNorm_col (column ds i) = Inr c"
  shows "\<exists>ds'. featureNorm_loop is ds = Inr ds' \<and> length ds' = length ds \<and> rect n ds' \<and>
           (\<forall>i \<in> set is. featureNorm_col (column ds i) = Inr (column ds' i)) \<and>
           (\<forall>j. j \<notin> set is \<longrightarrow> column ds' j = column ds j)"
  using assms
proof (induction "is" arbitrary: ds)
  case Nil
  then show ?case by simp
next
  case (Cons i rest)
  from Cons.prems obtain c where c: "featureNorm_col (column ds i) = Inr c" by auto
  have lc: "length c = length ds" using featureNorm_col_length[OF c] by (simp add: column_def)
  define ds1 where "ds1 = set_column ds i c"
  have r1: "rect n ds1" unfolding ds1_def using Cons.prems(1) by (rule rect_set_column)
  have l1: "length ds1 = length ds" unfolding ds1_def using lc by (rule length_set_column)
  have i: "i < n" "i \<notin> set rest" "distinct rest" using Cons.prems by auto
  have other: "column ds1 j = column ds j" if "j \<noteq> i" for j
    unfolding ds1_def using lc that by (rule column_set_column_other)
  have same: "column ds1 i = c"
    unfolding ds1_def using Cons.prems(1) lc i(1) by (rule column_set_column_same)
  have ok1: "\<forall>k \<in> set rest. \<exists>c. featureNorm_col (column ds1 k) = Inr c"
  proof
    fix k assume k: "k \<in> set rest"
    then have "k \<noteq> i" using i by auto
    then show "\<exists>c. featureNorm_col (column ds1 k) = Inr c"
      using Cons.prems(4) k by (simp add: other)
  qed
  have "\<forall>k \<in> set rest. k < n" using Cons.prems by auto
  from Cons.IH[OF r1 i(3) this ok1]
  obtain ds' where d: "featureNorm_loop rest ds1 = Inr ds'" "length ds' = length ds1" "rect n ds'"
    "\<forall>k \<in> set rest. featureNorm_col (column ds1 k) = Inr (column ds' k)"
    "\<forall>j. j \<notin> set rest \<longrightarrow> column ds' j = column ds1 j" by blast
  have run: "featureNorm_loop (i # rest) ds = Inr ds'"
    using c d(1) by (simp add: bind_def ds1_def)
  have ci: "column ds' i = c" using d(5) i(2) same by simp
  have p1: "\<forall>k \<in> set (i # rest). featureNorm_col (column ds k) = Inr (column ds' k)"
  proof
    fix k assume k: "k \<in> set (i # rest)"
    show "featureNorm_col (column ds k) = Inr (column ds' k)"
    proof (cases "k = i")
      case True
      then show ?thesis using c ci by simp
    next
      case False
      with k have kr: "k \<in> set rest" by simp
      with d(4) have "featureNorm_col (column ds1 k) = Inr (column ds' k)" by blast
      then show ?thesis using other[OF False] by simp
    qed
  qed
  have p2: "\<forall>j. j \<notin> set (i # rest) \<longrightarrow> column ds' j = column ds j"
    using d(5) other by auto
  have "length ds' = length ds" using d(2) l1 by simp
  with run d(3) p1 p2 show ?case by (intro exI[of _ ds'] conjI)
qed

section \<open>Properties of the rounding\<close>

lemma ulp_pos: "0 < ulp x"
  by (simp add: ulp_def)

lemma round_even_of_int: "round_even (real_of_int k) = k"
  by (simp add: round_even_def)

lemma round_even_cases: "round_even m = \<lfloor>m\<rfloor> \<or> round_even m = \<lfloor>m\<rfloor> + 1"
  by (simp add: round_even_def)

lemma round_even_nonzero:
  assumes "1 \<le> \<bar>m\<bar>"
  shows "round_even m \<noteq> 0"
proof (cases "0 \<le> m")
  case True
  with assms have "1 \<le> m" by simp
  then have "1 \<le> \<lfloor>m\<rfloor>" by (simp add: le_floor_iff)
  with round_even_cases[of m] show ?thesis by linarith
next
  case False
  with assms have m: "m \<le> - 1" by simp
  show ?thesis
  proof (cases "m = - 1")
    case True
    then show ?thesis using round_even_of_int[of "- 1"] by simp
  next
    case False
    with m have "m < - 1" by simp
    then have "\<lfloor>m\<rfloor> < - 1" by (simp add: floor_less_iff)
    with round_even_cases[of m] show ?thesis by linarith
  qed
qed

lemma rnd64_0: "rnd64 0 = Fin 0"
  by (simp add: rnd64_def)

text \<open>
  A number on the grid of its binade is rounded to itself, unless it overflows.
\<close>

lemma rnd64_grid:
  assumes x: "x \<noteq> 0" and p: "binade x = p" and k: "x = real_of_int k * 2 powr real_of_int (p - 52)"
  shows "rnd64 x = (if 2 ^ 1024 \<le> \<bar>x\<bar> then (if 0 < x then PInf else NInf) else Fin x)"
proof -
  have u: "ulp x = 2 powr real_of_int (p - 52)" by (simp add: ulp_def p)
  have "x / ulp x = real_of_int k" unfolding u using k by simp
  then have "real_of_int (round_even (x / ulp x)) * ulp x = x"
    unfolding u using k by (simp add: round_even_of_int)
  then show ?thesis using x by (simp add: rnd64_def Let_def)
qed

lemma binade_eq:
  assumes "0 < x" "2 powr real_of_int p \<le> x" "x < 2 powr real_of_int (p + 1)" "- 1022 \<le> p"
  shows "binade x = p" and "binade (- x) = p"
proof -
  have "\<lfloor>log 2 x\<rfloor> = p" using assms by (simp add: floor_log_eq_powr_iff)
  then show "binade x = p" "binade (- x) = p" using assms by (simp_all add: binade_def)
qed

lemma rnd64_1: "rnd64 1 = Fin 1"
proof -
  have b: "binade 1 = 0" by (rule binade_eq) simp_all
  have "rnd64 1 = (if 2 ^ 1024 \<le> \<bar>1::real\<bar> then (if (0::real) < 1 then PInf else NInf) else Fin 1)"
    by (rule rnd64_grid[OF _ b, of "2 ^ 52"]) (simp_all add: powr_neg_numeral)
  then show ?thesis by simp
qed

lemma rnd64_2: "rnd64 2 = Fin 2"
proof -
  have b: "binade 2 = 1" by (rule binade_eq) (simp_all add: powr_numeral)
  have "rnd64 2 = (if 2 ^ 1024 \<le> \<bar>2::real\<bar> then (if (0::real) < 2 then PInf else NInf) else Fin 2)"
    by (rule rnd64_grid[OF _ b, of "2 ^ 52"]) (simp_all add: powr_neg_numeral)
  then show ?thesis by simp
qed

lemma rnd64_4: "rnd64 4 = Fin 4"
proof -
  have b: "binade 4 = 2" by (rule binade_eq) (simp_all add: powr_numeral)
  have "rnd64 4 = (if 2 ^ 1024 \<le> \<bar>4::real\<bar> then (if (0::real) < 4 then PInf else NInf) else Fin 4)"
    by (rule rnd64_grid[OF _ b, of "2 ^ 52"]) (simp_all add: powr_neg_numeral)
  then show ?thesis by simp
qed

lemma rnd64_100: "rnd64 100 = Fin 100"
proof -
  have b: "binade 100 = 6" by (rule binade_eq) (simp_all add: powr_numeral)
  have "rnd64 100 = (if 2 ^ 1024 \<le> \<bar>100::real\<bar> then (if (0::real) < 100 then PInf else NInf) else Fin 100)"
    by (rule rnd64_grid[OF _ b, of "100 * 2 ^ 46"]) (simp_all add: powr_neg_numeral)
  then show ?thesis by simp
qed

lemma binade_2_1023: "binade (2 ^ 1023) = 1023" "binade (- (2 ^ 1023)) = 1023"
  by (rule binade_eq; simp add: powr_numeral)+

lemma rnd64_2_1023: "rnd64 (2 ^ 1023) = Fin (2 ^ 1023)"
proof -
  have "rnd64 (2 ^ 1023) = (if 2 ^ 1024 \<le> \<bar>2 ^ 1023 :: real\<bar>
          then (if (0::real) < 2 ^ 1023 then PInf else NInf) else Fin (2 ^ 1023))"
    by (rule rnd64_grid[OF _ binade_2_1023(1), of "2 ^ 52"]) (simp_all add: powr_numeral)
  then show ?thesis by simp
qed

lemma rnd64_neg_2_1023: "rnd64 (- (2 ^ 1023)) = Fin (- (2 ^ 1023))"
proof -
  have "rnd64 (- (2 ^ 1023)) = (if 2 ^ 1024 \<le> \<bar>- (2 ^ 1023) :: real\<bar>
          then (if (0::real) < - (2 ^ 1023) then PInf else NInf) else Fin (- (2 ^ 1023)))"
    by (rule rnd64_grid[OF _ binade_2_1023(2), of "- (2 ^ 52)"]) (simp_all add: powr_numeral)
  then show ?thesis by simp
qed

lemma rnd64_2_1024: "rnd64 (2 ^ 1024) = PInf"
proof -
  have b: "binade (2 ^ 1024) = 1024" by (rule binade_eq) (simp_all add: powr_numeral)
  have "rnd64 (2 ^ 1024) = (if 2 ^ 1024 \<le> \<bar>2 ^ 1024 :: real\<bar>
          then (if (0::real) < 2 ^ 1024 then PInf else NInf) else Fin (2 ^ 1024))"
    by (rule rnd64_grid[OF _ b, of "2 ^ 52"]) (simp_all add: powr_numeral)
  then show ?thesis by simp
qed

lemma ulp_le:
  assumes "2 powr (- 1074) \<le> \<bar>x\<bar>"
  shows "ulp x \<le> \<bar>x\<bar>"
proof (cases "\<lfloor>log 2 \<bar>x\<bar>\<rfloor> \<le> - 1022")
  case True
  then have "binade x = - 1022" by (simp add: binade_def)
  then show ?thesis using assms by (simp add: ulp_def)
next
  case False
  then have b: "binade x = \<lfloor>log 2 \<bar>x\<bar>\<rfloor>" by (simp add: binade_def)
  have "0 < (2::real) powr (- 1074)" by simp
  with assms have pos: "0 < \<bar>x\<bar>" by linarith
  have "2 powr real_of_int \<lfloor>log 2 \<bar>x\<bar>\<rfloor> \<le> \<bar>x\<bar>"
    using floor_log_eq_powr_iff[of "\<bar>x\<bar>" 2 "\<lfloor>log 2 \<bar>x\<bar>\<rfloor>"] pos by simp
  moreover have "ulp x \<le> 2 powr real_of_int \<lfloor>log 2 \<bar>x\<bar>\<rfloor>"
    unfolding ulp_def b by (rule powr_mono) simp_all
  ultimately show ?thesis by linarith
qed

lemma rnd64_nonzero:
  assumes "2 powr (- 1074) \<le> \<bar>x\<bar>"
  shows "rnd64 x \<noteq> Fin 0"
proof -
  have "0 < (2::real) powr (- 1074)" by simp
  with assms have x: "x \<noteq> 0" by auto
  have "1 \<le> \<bar>x\<bar> / ulp x" using ulp_le[OF assms] ulp_pos[of x] by simp
  then have "1 \<le> \<bar>x / ulp x\<bar>" using ulp_pos[of x] by simp
  then have "round_even (x / ulp x) \<noteq> 0" by (rule round_even_nonzero)
  then have "real_of_int (round_even (x / ulp x)) * ulp x \<noteq> 0"
    using ulp_pos[of x] by simp
  then show ?thesis using x by (simp add: rnd64_def Let_def)
qed

text \<open>
  Every float64 value is a multiple of the smallest subnormal number, so the difference of
  two distinct float64 values does not round to zero.
\<close>

lemma float64_on_grid:
  assumes "rnd64 r = Fin r"
  shows "\<exists>k. r = real_of_int k * 2 powr (- 1074)"
proof (cases "r = 0")
  case True
  then show ?thesis by (intro exI[of _ 0]) simp
next
  case False
  define n where "n = round_even (r / ulp r)"
  define j where "j = binade r + 1022"
  have j0: "0 \<le> j" by (simp add: j_def binade_def)
  from assms False have r: "r = real_of_int n * ulp r"
    by (simp add: rnd64_def Let_def n_def split: if_splits)
  have "real_of_int (binade r - 52) = real_of_int j + (- 1074)" by (simp add: j_def)
  then have "ulp r = 2 powr real_of_int j * 2 powr (- 1074)"
    unfolding ulp_def by (simp only: powr_add)
  also have "2 powr real_of_int j = 2 ^ nat j"
    using j0 powr_realpow[of 2 "nat j"] by simp
  finally have "ulp r = real_of_int (2 ^ nat j) * 2 powr (- 1074)" by simp
  with r have "r = real_of_int (n * 2 ^ nat j) * 2 powr (- 1074)" by simp
  then show ?thesis by blast
qed

lemma float64_difference:
  assumes "rnd64 a = Fin a" "rnd64 b = Fin b" "a \<noteq> b"
  shows "rnd64 (b - a) \<noteq> Fin 0"
proof -
  from float64_on_grid[OF assms(1)] obtain ka where a: "a = real_of_int ka * 2 powr (- 1074)" by blast
  from float64_on_grid[OF assms(2)] obtain kb where b: "b = real_of_int kb * 2 powr (- 1074)" by blast
  have "kb \<noteq> ka" using a b assms(3) by auto
  then have "1 \<le> \<bar>real_of_int (kb - ka)\<bar>" by linarith
  moreover have "b - a = real_of_int (kb - ka) * 2 powr (- 1074)"
    using a b by (simp add: algebra_simps)
  ultimately have "2 powr (- 1074) \<le> \<bar>b - a\<bar>"
    by (simp add: abs_mult mult_le_cancel_right1)
  then show ?thesis by (rule rnd64_nonzero)
qed

lemma rnd64_range: "0 < x \<Longrightarrow> rnd64 x = PInf \<or> (\<exists>y. rnd64 x = Fin y)"
  by (simp add: rnd64_def Let_def)

section \<open>Column normalisation in float64\<close>

lemma fl_sub_self: "fl_sub (Fin v) (Fin v) = Fin 0"
  by (simp add: fl_sub_def fsub_def fl_round_def rnd64_0)

lemma fl_sub_Fin: "fl_sub (Fin b) (Fin a) = rnd64 (b - a)"
  by (simp add: fl_sub_def fsub_def fl_round_def)

lemma entry_const:
  "fl_mul (fl_div (fl_sub (Fin v) (Fin v)) (fl_sub (Fin v) (Fin v))) (Fin 100) = NaN"
  by (simp add: fl_sub_self fl_div_def fl_mul_def fl_round_def)

lemma entry_min:
  assumes "rnd64 a = Fin a" "rnd64 b = Fin b" "a < b"
  shows "fl_mul (fl_div (fl_sub (Fin a) (Fin a)) (fl_sub (Fin b) (Fin a))) (Fin 100) = Fin 0"
proof -
  have nz: "rnd64 (b - a) \<noteq> Fin 0" using assms by (intro float64_difference) auto
  have "0 < b - a" using assms by simp
  from rnd64_range[OF this] show ?thesis
  proof
    assume "rnd64 (b - a) = PInf"
    then show ?thesis
      by (simp add: fl_sub_self fl_sub_Fin fl_div_def fl_mul_def fl_round_def rnd64_0)
  next
    assume "\<exists>y. rnd64 (b - a) = Fin y"
    then obtain y where y: "rnd64 (b - a) = Fin y" by blast
    with nz have "y \<noteq> 0" by simp
    then show ?thesis
      by (simp add: fl_sub_self fl_sub_Fin y fl_div_def fl_mul_def fl_round_def rnd64_0)
  qed
qed

lemma entry_max:
  assumes "rnd64 a = Fin a" "rnd64 b = Fin b" "a < b" "isfinite (fl_sub (Fin b) (Fin a))"
  shows "fl_mul (fl_div (fl_sub (Fin b) (Fin a)) (fl_sub (Fin b) (Fin a))) (Fin 100) = Fin 100"
proof -
  have nz: "rnd64 (b - a) \<noteq> Fin 0" using assms by (intro float64_difference) auto
  from assms(4) obtain y where y: "rnd64 (b - a) = Fin y"
    unfolding fl_sub_Fin by (cases "rnd64 (b - a)") auto
  with nz have "y \<noteq> 0" by simp
  then show ?thesis
    by (simp add: fl_sub_Fin y fl_div_def fl_mul_def fl_round_def rnd64_1 rnd64_100)
qed

lemma col_value:
  assumes fin: "Fin r \<in> set col"
  shows "featureNorm_col col =
     Inr (map (\<lambda>x. if isnan (fl_mul (fl_div (fl_sub x (Fin (Min (set (finite_values col)))))
                                 (fl_sub (Fin (Max (set (finite_values col)))) (Fin (Min (set (finite_values col))))))
                           (Fin 100))
                    then Fin (- 1)
                    else fl_mul (fl_div (fl_sub x (Fin (Min (set (finite_values col)))))
                                 (fl_sub (Fin (Max (set (finite_values col)))) (Fin (Min (set (finite_values col))))))
                           (Fin 100)) col)"
proof -
  have "\<not> isnan (Fin r)" by simp
  with fin have nn: "\<not> list_all isnan col" unfolding list_all_iff by blast
  have "r \<in> set (finite_values col)" using fin by (simp add: set_finite_values)
  then have ne: "finite_values col \<noteq> []" by auto
  show ?thesis
    by (simp add: featureNorm_col_def nn py_min_real_Min[OF ne] py_max_real_Max[OF ne] bind_def
        Let_def comp_def)
qed

lemma col_constant:
  assumes c: "\<forall>x \<in> set col. x = Fin v"
  shows "featureNorm_col col = Inr (replicate (length col) (Fin (- 1)))"
proof (cases "col = []")
  case True
  then show ?thesis by (simp add: featureNorm_col_def)
next
  case False
  then obtain x where "x \<in> set col" by (cases col) auto
  with c have fin: "Fin v \<in> set col" by auto
  have "set (finite_values col) = {v}" using c fin by (auto simp add: set_finite_values)
  then have mm: "Min (set (finite_values col)) = v" "Max (set (finite_values col)) = v" by simp_all
  have "map (\<lambda>x. if isnan (fl_mul (fl_div (fl_sub x (Fin v)) (fl_sub (Fin v) (Fin v))) (Fin 100))
                    then Fin (- 1)
                    else fl_mul (fl_div (fl_sub x (Fin v)) (fl_sub (Fin v) (Fin v))) (Fin 100)) col
        = map (\<lambda>x. Fin (- 1)) col"
    by (rule map_cong[OF refl]) (use c in \<open>auto simp add: entry_const\<close>)
  then show ?thesis unfolding col_value[OF fin] mm by (simp add: map_replicate_const)
qed

lemma col_span:
  assumes a: "Fin a \<in> set col" and b: "Fin b \<in> set col"
    and bounds: "\<forall>r. Fin r \<in> set col \<longrightarrow> a \<le> r \<and> r \<le> b" and ab: "a < b"
    and fa: "rnd64 a = Fin a" and fb: "rnd64 b = Fin b"
    and j: "j < length col"
  shows "\<exists>c. featureNorm_col col = Inr c \<and>
             (col ! j = Fin a \<longrightarrow> c ! j = Fin 0) \<and>
             (col ! j = Fin b \<and> isfinite (fl_sub (Fin b) (Fin a)) \<longrightarrow> c ! j = Fin 100)"
proof -
  have fs: "finite (set (finite_values col))" by simp
  have mn: "Min (set (finite_values col)) = a"
    using a bounds fs by (intro Min_eqI) (auto simp add: set_finite_values)
  have mx: "Max (set (finite_values col)) = b"
    using b bounds fs by (intro Max_eqI) (auto simp add: set_finite_values)
  show ?thesis
    unfolding col_value[OF a] mn mx
    using j entry_min[OF fa fb ab] entry_max[OF fa fb ab] by auto
qed

lemma column_float64:
  assumes "float64_array dataset" "rect n dataset" "i < n" "Fin r \<in> set (column dataset i)"
  shows "rnd64 r = Fin r"
proof -
  from assms(4) obtain row where row: "row \<in> set dataset" "row ! i = Fin r"
    by (auto simp add: column_def)
  with assms(2,3) have "i < length row" by (simp add: rect_def)
  then have "row ! i \<in> set row" by simp
  with assms(1) row have "is_float64 (Fin r)" unfolding float64_array_def by metis
  then show ?thesis by simp
qed

text \<open>
  Claim C8, as the code has it.  On an array of float64 values with at least one row,
  each of whose columns is entirely NaN or holds a finite value, \<open>featureNorm\<close> returns
  an array of the same shape whose column \<open>i\<close> is computed from column \<open>i\<close> of the
  input alone: a column that is entirely NaN and a column of identical finite values
  become all \<open>-1\<close>; in a column whose finite values span \<open>[a, b]\<close> with \<open>a < b\<close> every
  minimum becomes 0, and every maximum becomes 100 when the range \<open>b - a\<close> is finite in
  float64.
\<close>

theorem featureNorm_columns:
  assumes r: "rect n dataset" and ne: "dataset \<noteq> []" and fl: "float64_array dataset"
    and ok: "\<forall>i<n. list_all isnan (column dataset i) \<or> (\<exists>r. Fin r \<in> set (column dataset i))"
  shows "\<exists>result. featureNorm dataset = Inr result \<and> length result = length dataset \<and> rect n result \<and>
     (\<forall>i<n. featureNorm_col (column dataset i) = Inr (column result i) \<and>
        (list_all isnan (column dataset i)
           \<longrightarrow> column result i = replicate (length dataset) (Fin (- 1))) \<and>
        (\<forall>v. (\<forall>x \<in> set (column dataset i). x = Fin v)
           \<longrightarrow> column result i = replicate (length dataset) (Fin (- 1))) \<and>
        (\<forall>a b. Fin a \<in> set (column dataset i) \<and> Fin b \<in> set (column dataset i) \<and>
               (\<forall>r. Fin r \<in> set (column dataset i) \<longrightarrow> a \<le> r \<and> r \<le> b) \<and> a < b
           \<longrightarrow> (\<forall>j<length dataset.
                  (dataset ! j ! i = Fin a \<longrightarrow> result ! j ! i = Fin 0) \<and>
                  (dataset ! j ! i = Fin b \<and> isfinite (fl_sub (Fin b) (Fin a))
                     \<longrightarrow> result ! j ! i = Fin 100))))"
proof -
  from ne obtain row0 rows where ds: "dataset = row0 # rows" by (cases dataset) auto
  with r have n: "length row0 = n" by (simp add: rect_def)
  have run: "featureNorm dataset = featureNorm_loop [0..<n] dataset"
    by (simp add: featureNorm_def ds n)
  have ok': "\<forall>i \<in> set [0..<n]. \<exists>c. featureNorm_col (column dataset i) = Inr c"
  proof
    fix i assume "i \<in> set [0..<n]"
    then have "i < n" by simp
    with ok have "list_all isnan (column dataset i) \<or> (\<exists>r. Fin r \<in> set (column dataset i))" by blast
    then show "\<exists>c. featureNorm_col (column dataset i) = Inr c"
      using col_all_nan col_value by blast
  qed
  have "\<forall>i \<in> set [0..<n]. i < n" by simp
  from featureNorm_loop_columns[OF r distinct_upt this ok']
  obtain result where res: "featureNorm_loop [0..<n] dataset = Inr result"
    "length result = length dataset" "rect n result"
    "\<forall>i \<in> set [0..<n]. featureNorm_col (column dataset i) = Inr (column result i)" by blast
  have lcol: "length (column dataset i) = length dataset" for i by (simp add: column_def)
  have per: "featureNorm_col (column dataset i) = Inr (column result i) \<and>
        (list_all isnan (column dataset i)
           \<longrightarrow> column result i = replicate (length dataset) (Fin (- 1))) \<and>
        (\<forall>v. (\<forall>x \<in> set (column dataset i). x = Fin v)
           \<longrightarrow> column result i = replicate (length dataset) (Fin (- 1))) \<and>
        (\<forall>a b. Fin a \<in> set (column dataset i) \<and> Fin b \<in> set (column dataset i) \<and>
               (\<forall>r. Fin r \<in> set (column dataset i) \<longrightarrow> a \<le> r \<and> r \<le> b) \<and> a < b
           \<longrightarrow> (\<forall>j<length dataset.
                  (dataset ! j ! i = Fin a \<longrightarrow> result ! j ! i = Fin 0) \<and>
                  (dataset ! j ! i = Fin b \<and> isfinite (fl_sub (Fin b) (Fin a))
                     \<longrightarrow> result ! j ! i = Fin 100)))" if i: "i < n" for i
  proof (intro conjI impI allI)
    show eq: "featureNorm_col (column dataset i) = Inr (column result i)"
      using res(4) i by simp
    {
      assume "list_all isnan (column dataset i)"
      from col_all_nan[OF this] eq
      show "column result i = replicate (length dataset) (Fin (- 1))" by (simp add: lcol)
    }
    {
      fix v assume "\<forall>x \<in> set (column dataset i). x = Fin v"
      from col_constant[OF this] eq
      show "column result i = replicate (length dataset) (Fin (- 1))" by (simp add: lcol)
    }
    {
      fix a b j
      assume h: "Fin a \<in> set (column dataset i) \<and> Fin b \<in> set (column dataset i) \<and>
               (\<forall>r. Fin r \<in> set (column dataset i) \<longrightarrow> a \<le> r \<and> r \<le> b) \<and> a < b"
        and j: "j < length dataset"
      have j': "j < length (column dataset i)" using j by (simp add: lcol)
      have fa: "rnd64 a = Fin a" using h column_float64[OF fl r i] by blast
      have fb: "rnd64 b = Fin b" using h column_float64[OF fl r i] by blast
      from h col_span[of a "column dataset i" b j, OF _ _ _ _ fa fb j']
      obtain c where c: "featureNorm_col (column dataset i) = Inr c"
        "column dataset i ! j = Fin a \<longrightarrow> c ! j = Fin 0"
        "column dataset i ! j = Fin b \<and> isfinite (fl_sub (Fin b) (Fin a)) \<longrightarrow> c ! j = Fin 100"
        by blast
      from c(1) eq have cc: "c = column result i" by simp
      have d: "column dataset i ! j = dataset ! j ! i" using j by (simp add: column_def)
      have e: "column result i ! j = result ! j ! i" using j res(2) by (simp add: column_def)
      {
        assume "dataset ! j ! i = Fin a"
        then show "result ! j ! i = Fin 0" using c(2) cc d e by simp
      }
      {
        assume "dataset ! j ! i = Fin b \<and> isfinite (fl_sub (Fin b) (Fin a))"
        then show "result ! j ! i = Fin 100" using c(3) cc d e by simp
      }
    }
  qed
  show ?thesis
    using run res(1,2,3) per by (intro exI[of _ result]) simp
qed

lemma col_overflow:
  assumes M: "0 < M" and ov: "rnd64 (M + M) = PInf"
  shows "featureNorm_col [Fin (- M), Fin M] = Inr [Fin 0, Fin (- 1)]"
proof -
  have mn: "min M (- M) = - M" and mx: "max M (- M) = M" using M by simp_all
  have d: "fl_sub (Fin M) (Fin (- M)) = PInf" using ov by (simp add: fl_sub_Fin)
  show ?thesis
    by (simp add: featureNorm_col_def finite_values_def py_min_real_def py_max_real_def bind_def
        Let_def mn mx d fl_sub_self fl_div_def fl_mul_def fl_round_def rnd64_0)
qed

lemma col_1_2: "featureNorm_col [Fin 1, Fin 2] = Inr [Fin 0, Fin 100]"
  by (simp add: featureNorm_col_def finite_values_def py_min_real_def py_max_real_def bind_def
      Let_def fl_sub_Fin fl_div_def fl_mul_def fl_round_def rnd64_0 rnd64_1 rnd64_100)

lemma col_infinities:
  "featureNorm_col [PInf, NInf] = Inl (ValueError ''min() arg is an empty sequence'')"
  by (simp add: featureNorm_col_def finite_values_def py_min_real_def bind_def)

lemma huge_pos: "0 < huge"
  by (simp add: huge_def)

lemma rnd64_huge: "rnd64 huge = Fin huge" "rnd64 (- huge) = Fin (- huge)"
  unfolding huge_def by (rule rnd64_2_1023, rule rnd64_neg_2_1023)

lemma rnd64_huge_huge: "rnd64 (huge + huge) = PInf"
proof -
  have "(2 ^ 1023 + 2 ^ 1023 :: real) = 2 ^ 1024" by simp
  then show ?thesis unfolding huge_def by (simp only: rnd64_2_1024)
qed

text \<open>
  Claim C8 as stated fails in two ways.  The column \<open>[-2^1023, 2^1023]\<close> spans a range
  that overflows: \<open>maxi - mini\<close> is infinite, the quotient for the maximum is
  \<open>inf/inf\<close>, and the maximum becomes \<open>-1\<close>, not 100.  And beside a column that holds
  only infinities, the spanning column \<open>[1, 2]\<close> is not mapped at all: \<open>min\<close> of the empty
  selection raises \<open>ValueError\<close>.
\<close>

theorem featureNorm_overflow:
  "float64_array [[Fin (- huge)], [Fin huge]] \<and>
   featureNorm [[Fin (- huge)], [Fin huge]] = Inr [[Fin 0], [Fin (- 1)]] \<and>
   float64_array [[Fin 1, PInf], [Fin 2, NInf]] \<and>
   featureNorm [[Fin 1, PInf], [Fin 2, NInf]] = Inl (ValueError ''min() arg is an empty sequence'')"
proof (intro conjI)
  show "float64_array [[Fin (- huge)], [Fin huge]]"
    by (simp add: float64_array_def rnd64_huge)
  show "float64_array [[Fin 1, PInf], [Fin 2, NInf]]"
    by (simp add: float64_array_def rnd64_1 rnd64_2)
  have c: "featureNorm_col [Fin (- huge), Fin huge] = Inr [Fin 0, Fin (- 1)]"
    by (rule col_overflow[OF huge_pos rnd64_huge_huge])
  have u1: "[0..<1] = [0::nat]" by (simp add: upt_rec)
  show "featureNorm [[Fin (- huge)], [Fin huge]] = Inr [[Fin 0], [Fin (- 1)]]"
    by (simp add: featureNorm_def u1 column_def c bind_def set_column_def)
  have u2: "[0..<2] = [0::nat, 1]" by (simp add: upt_rec)
  show "featureNorm [[Fin 1, PInf], [Fin 2, NInf]] = Inl (ValueError ''min() arg is an empty sequence'')"
    by (simp add: featureNorm_def u2 column_def col_1_2 col_infinities bind_def set_column_def)
qed

text \<open>
  An array of two rows with a spanning column, a constant column and a NaN column.
\<close>

theorem featureNorm_columns_witness:
  "\<exists>result. featureNorm [[Fin 1, Fin 4, NaN], [Fin 2, Fin 4, NaN]] = Inr result \<and>
     column result 0 = [Fin 0, Fin 100] \<and>
     column result 1 = [Fin (- 1), Fin (- 1)] \<and>
     column result 2 = [Fin (- 1), Fin (- 1)]"
proof -
  let ?ds = "[[Fin 1, Fin 4, NaN], [Fin 2, Fin 4, NaN]]"
  have lt3: "i < 3 \<longleftrightarrow> i = 0 \<or> i = 1 \<or> i = 2" for i :: nat by auto
  have c0: "column ?ds 0 = [Fin 1, Fin 2]" and c1: "column ?ds 1 = [Fin 4, Fin 4]"
    and c2: "column ?ds 2 = [NaN, NaN]" by (simp_all add: column_def)
  have h1: "rect 3 ?ds" by (simp add: rect_def)
  have h2: "?ds \<noteq> []" by simp
  have h3: "float64_array ?ds" by (simp add: float64_array_def rnd64_1 rnd64_2 rnd64_4)
  have h4: "\<forall>i<3. list_all isnan (column ?ds i) \<or> (\<exists>r. Fin r \<in> set (column ?ds i))"
    unfolding lt3 using c0 c1 c2 by auto
  from featureNorm_columns[OF h1 h2 h3 h4]
  obtain result where res: "featureNorm ?ds = Inr result" "length result = length ?ds"
    and per: "\<forall>i<3. featureNorm_col (column ?ds i) = Inr (column result i) \<and>
        (list_all isnan (column ?ds i)
           \<longrightarrow> column result i = replicate (length ?ds) (Fin (- 1))) \<and>
        (\<forall>v. (\<forall>x \<in> set (column ?ds i). x = Fin v)
           \<longrightarrow> column result i = replicate (length ?ds) (Fin (- 1))) \<and>
        (\<forall>a b. Fin a \<in> set (column ?ds i) \<and> Fin b \<in> set (column ?ds i) \<and>
               (\<forall>r. Fin r \<in> set (column ?ds i) \<longrightarrow> a \<le> r \<and> r \<le> b) \<and> a < b
           \<longrightarrow> (\<forall>j<length ?ds.
                  (?ds ! j ! i = Fin a \<longrightarrow> result ! j ! i = Fin 0) \<and>
                  (?ds ! j ! i = Fin b \<and> isfinite (fl_sub (Fin b) (Fin a))
                     \<longrightarrow> result ! j ! i = Fin 100)))" by blast
  have l: "length result = 2" using res(2) by simp
  have r2: "column result 2 = [Fin (- 1), Fin (- 1)]"
    using per[rule_format, of 2] c2 by (simp add: numeral_2_eq_2)
  have r1: "column result 1 = [Fin (- 1), Fin (- 1)]"
    using per[rule_format, of 1] c1 by (simp add: numeral_2_eq_2)
  have p0: "(0::nat) < 3" by simp
  from per[rule_format, OF p0]
  have q: "\<forall>a b. Fin a \<in> set (column ?ds 0) \<and> Fin b \<in> set (column ?ds 0) \<and>
               (\<forall>r. Fin r \<in> set (column ?ds 0) \<longrightarrow> a \<le> r \<and> r \<le> b) \<and> a < b
           \<longrightarrow> (\<forall>j<length ?ds.
                  (?ds ! j ! 0 = Fin a \<longrightarrow> result ! j ! 0 = Fin 0) \<and>
                  (?ds ! j ! 0 = Fin b \<and> isfinite (fl_sub (Fin b) (Fin a))
                     \<longrightarrow> result ! j ! 0 = Fin 100))"
    by (elim conjE)
  have pre: "Fin 1 \<in> set (column ?ds 0) \<and> Fin 2 \<in> set (column ?ds 0) \<and>
               (\<forall>r. Fin r \<in> set (column ?ds 0) \<longrightarrow> 1 \<le> r \<and> r \<le> 2) \<and> (1::real) < 2"
    unfolding c0 by auto
  have fin: "isfinite (fl_sub (Fin 2) (Fin 1))" by (simp add: fl_sub_Fin rnd64_1)
  from q[rule_format, OF pre]
  have sp: "\<And>j. j < length ?ds \<Longrightarrow> (?ds ! j ! 0 = Fin 1 \<longrightarrow> result ! j ! 0 = Fin 0) \<and>
                  (?ds ! j ! 0 = Fin 2 \<and> isfinite (fl_sub (Fin 2) (Fin 1))
                     \<longrightarrow> result ! j ! 0 = Fin 100)"
    by blast
  have "result ! 0 ! 0 = Fin 0" using sp[of 0] by simp
  moreover have "result ! 1 ! 0 = Fin 100" using sp[of 1] fin by simp
  ultimately have r0: "column result 0 = [Fin 0, Fin 100]"
    using l by (simp add: column_def list_eq_iff_nth_eq less_Suc_eq numeral_2_eq_2)
  show ?thesis using res(1) r0 r1 r2 by blast
qed

end
